theory Spec2Isabelle
  imports Complex_Main
begin

section \<open>Data model (types.ts)\<close>

text \<open>
  The whiteboard stores every coordinate as a JavaScript number.  The embedding reads a
  number as a real: arithmetic is exact, and the rounding of IEEE doubles, infinities
  and NaN are outside the model.  Where the source would compute with a missing
  (undefined) number, the model spells out the outcome of the NaN comparison.
  An optional field \<open>f?: T\<close> is a field of type \<open>T option\<close>.
\<close>

record Point =
  pt_x :: real
  pt_y :: real
  pressure :: "real option"

text \<open>
  A JavaScript string whose characters the code inspects (the text of a text element) is
  the list of its UTF-16 code units.  Identifiers and colours are only compared and
  copied; they are plain strings.
\<close>

type_synonym js_text = "nat list"

record StrokeStyle =
  color :: string
  style_size :: real
  isHighlighter :: "bool option"

datatype ElementType = Stroke | Rectangle | Circle | Line | Text

record CanvasElement =
  el_id :: string
  el_type :: ElementType
  layerId :: string
  points :: "Point list option"
  el_x :: "real option"
  el_y :: "real option"
  width :: "real option"
  height :: "real option"
  el_text :: "js_text option"
  style :: StrokeStyle

record Layer =
  layer_id :: string
  layer_name :: string
  visible :: bool
  locked :: bool

datatype ToolType =
  ToolPen | ToolEraser | ToolRectangle | ToolCircle | ToolLine | ToolText | ToolMove

record AppState =
  elements :: "CanvasElement list"
  layers :: "Layer list"
  activeLayerId :: string
  selectedTool :: ToolType
  currentColor :: string
  currentSize :: real
  zoom :: real
  pan :: "real \<times> real"
  history :: "CanvasElement list list"
  historyStep :: nat

section \<open>Geometry kernel (utils/geometry.ts)\<close>

text \<open>\<open>Math.hypot\<close> of two arguments.\<close>

definition hypot :: "real \<Rightarrow> real \<Rightarrow> real" where
  "hypot a b = sqrt (a\<^sup>2 + b\<^sup>2)"

definition distance :: "Point \<Rightarrow> Point \<Rightarrow> real" where
  "distance a b = hypot (pt_x a - pt_x b) (pt_y a - pt_y b)"

definition distanceToSegment :: "Point \<Rightarrow> Point \<Rightarrow> Point \<Rightarrow> real" where
  "distanceToSegment p v w =
     (let l2 = (pt_x v - pt_x w)\<^sup>2 + (pt_y v - pt_y w)\<^sup>2 in
      if l2 = 0 then distance p v
      else
        let t = ((pt_x p - pt_x v) * (pt_x w - pt_x v) + (pt_y p - pt_y v) * (pt_y w - pt_y v)) / l2;
            t = max 0 (min 1 t)
        in distance p \<lparr>pt_x = pt_x v + t * (pt_x w - pt_x v),
                        pt_y = pt_y v + t * (pt_y w - pt_y v),
                        pressure = None\<rparr>)"

text \<open>
  \<open>p.pressure || 0.5\<close>: the right operand is taken when the pressure is missing and
  also when it is the falsy number 0.
\<close>

definition pressure_or_default :: "Point \<Rightarrow> real" where
  "pressure_or_default p =
     (case pressure p of None \<Rightarrow> 0.5 | Some v \<Rightarrow> if v = 0 then 0.5 else v)"

text \<open>The point pushed by the inner loop of \<open>getSplinePoints\<close> at a given ratio.\<close>

definition interpolated :: "(Point \<Rightarrow> real) \<Rightarrow> Point \<Rightarrow> Point \<Rightarrow> real \<Rightarrow> Point" where
  "interpolated pr p0 p1 ratio =
     \<lparr>pt_x = pt_x p0 + (pt_x p1 - pt_x p0) * ratio,
      pt_y = pt_y p0 + (pt_y p1 - pt_y p0) * ratio,
      pressure = Some (pr p0 + (pr p1 - pr p0) * ratio)\<rparr>"

text \<open>\<open>Math.floor(distance(p0, p1) / 2) + 1\<close>; the distance is never negative.\<close>

definition steps_between :: "Point \<Rightarrow> Point \<Rightarrow> nat" where
  "steps_between p0 p1 = nat \<lfloor>distance p0 p1 / 2\<rfloor> + 1"

text \<open>The inner loop \<open>for (let t = 1; t < steps; t++)\<close>, pushing onto \<open>newPoints\<close>.\<close>

function inner_loop :: "Point \<Rightarrow> Point \<Rightarrow> nat \<Rightarrow> nat \<Rightarrow> Point list \<Rightarrow> Point list" where
  "inner_loop p0 p1 steps t newPoints =
     (if t < steps
      then inner_loop p0 p1 steps (t + 1)
             (newPoints @ [interpolated pressure_or_default p0 p1 (real t / real steps)])
      else newPoints)"
  by pat_completeness auto
termination
  by (relation "measure (\<lambda>(p0, p1, steps, t, newPoints). steps - t)") auto

declare inner_loop.simps [simp del]

text \<open>
  The outer loop \<open>for (let i = 1; i < points.length - 2; i++)\<close>.  Both reads,
  \<open>points[i]\<close> and \<open>points[i + 1]\<close>, are in range under the loop condition.
\<close>

function outer_loop :: "Point list \<Rightarrow> nat \<Rightarrow> Point list \<Rightarrow> Point list" where
  "outer_loop pts i newPoints =
     (if int i < int (length pts) - 2
      then
        let p0 = pts ! i;
            p1 = pts ! (i + 1);
            steps = steps_between p0 p1;
            newPoints = inner_loop p0 p1 steps 1 newPoints
        in outer_loop pts (i + 1) (newPoints @ [p1])
      else newPoints)"
  by pat_completeness auto
termination
  by (relation "measure (\<lambda>(pts, i, newPoints). length pts - i)") auto

declare outer_loop.simps [simp del]

definition getSplinePoints :: "Point list \<Rightarrow> Point list" where
  "getSplinePoints pts =
     (if length pts < 3 then pts
      else outer_loop pts 1 [pts ! 0] @ [pts ! (length pts - 1)])"

subsection \<open>The resampling as the specification words it\<close>

text \<open>
  For a pair \<open>(p0, p1)\<close> the interior interpolants sit at the ratios \<open>t / steps\<close> for
  \<open>t = 1, \<dots>, steps - 1\<close>; the pair's second point follows them verbatim.  The reading
  of a point's pressure is a parameter: \<open>pressure_missing_default\<close> replaces only a
  missing pressure by 0.5.
\<close>

definition pressure_missing_default :: "Point \<Rightarrow> real" where
  "pressure_missing_default p = (case pressure p of None \<Rightarrow> 0.5 | Some v \<Rightarrow> v)"

definition interpolants :: "(Point \<Rightarrow> real) \<Rightarrow> Point \<Rightarrow> Point \<Rightarrow> Point list" where
  "interpolants pr p0 p1 =
     map (\<lambda>t. interpolated pr p0 p1 (real t / real (steps_between p0 p1)))
       [1..<steps_between p0 p1]"

definition resample :: "(Point \<Rightarrow> real) \<Rightarrow> Point list \<Rightarrow> Point list" where
  "resample pr pts =
     (if length pts < 3 then pts
      else hd pts #
           concat (map (\<lambda>i. interpolants pr (pts ! i) (pts ! (i + 1)) @ [pts ! (i + 1)])
                     [1..<length pts - 2])
           @ [last pts])"

section \<open>View transform (App.tsx)\<close>

text \<open>
  The handlers are closures over the rendered \<open>state\<close> and update it through
  \<open>setState(prev => \<dots>)\<close>.  Events are handled one at a time on a single thread, so
  the rendered state and \<open>prev\<close> are the same value when a handler runs; the model
  passes that one state in and returns the updated one.

  \<open>getBoundingClientRect()\<close> of the canvas is an input from the page layout; a canvas
  that is not mounted (\<open>canvasRef.current\<close> is null) is \<open>None\<close>.
\<close>

record DOMRect =
  rect_left :: real
  rect_top :: real

definition screenToWorld :: "DOMRect option \<Rightarrow> AppState \<Rightarrow> real \<Rightarrow> real \<Rightarrow> Point" where
  "screenToWorld canvas st clientX clientY =
     (case canvas of
        None \<Rightarrow> \<lparr>pt_x = 0, pt_y = 0, pressure = None\<rparr>
      | Some rect \<Rightarrow>
          \<lparr>pt_x = (clientX - rect_left rect - fst (pan st)) / zoom st,
           pt_y = (clientY - rect_top rect - snd (pan st)) / zoom st,
           pressure = None\<rparr>)"

definition worldToScreen :: "AppState \<Rightarrow> real \<Rightarrow> real \<Rightarrow> real \<times> real" where
  "worldToScreen st wx wy = (wx * zoom st + fst (pan st), wy * zoom st + snd (pan st))"

record PointerEvent =
  clientX :: real
  clientY :: real
  ev_pressure :: real

definition getPointerPos :: "DOMRect option \<Rightarrow> AppState \<Rightarrow> PointerEvent \<Rightarrow> Point" where
  "getPointerPos canvas st e =
     (screenToWorld canvas st (clientX e) (clientY e))
       \<lparr>pressure := Some (if ev_pressure e = 0 then 0.5 else ev_pressure e)\<rparr>"

definition getActiveLayer :: "AppState \<Rightarrow> Layer option" where
  "getActiveLayer st = find (\<lambda>l. layer_id l = activeLayerId st) (layers st)"

subsection \<open>Zoom\<close>

text \<open>
  The zoom handlers are the one place where a claim rests on whether the arithmetic is
  exact, so they take the rounding as a parameter \<open>rnd\<close>, applied to the result of every
  arithmetic operation and to the literal \<open>0.1\<close>: the identity is exact arithmetic, and
  \<open>binary64\<close> is the arithmetic of JavaScript numbers.

  \<open>binary64\<close> rounds a real to the nearest number with a significand of 53 bits, a tie
  going to the even significand (IEEE 754, round to nearest even).  The exponent is not
  bounded: overflow to infinity and the subnormal numbers below \<open>2\<^sup>-\<^sup>1\<^sup>0\<^sup>2\<^sup>2\<close> are outside
  the model.
\<close>

definition pow2 :: "int \<Rightarrow> real" where
  "pow2 k = (if 0 \<le> k then 2 ^ nat k else 1 / 2 ^ nat (- k))"

definition round_half_even :: "real \<Rightarrow> int" where
  "round_half_even r =
     (let f = \<lfloor>r\<rfloor> in
      if r - of_int f < 1 / 2 then f
      else if r - of_int f > 1 / 2 then f + 1
      else if even f then f else f + 1)"

definition binary64 :: "real \<Rightarrow> real" where
  "binary64 x =
     (if x = 0 then 0
      else
        let e = \<lfloor>log 2 \<bar>x\<bar>\<rfloor>;
            ulp = pow2 (e - 52)
        in of_int (round_half_even (x / ulp)) * ulp)"

text \<open>\<open>screenToWorld\<close> with the rounding written out; \<open>screenToWorld\<close> above is its
  instance in exact arithmetic.\<close>

definition screenToWorld_rounded ::
  "(real \<Rightarrow> real) \<Rightarrow> DOMRect option \<Rightarrow> AppState \<Rightarrow> real \<Rightarrow> real \<Rightarrow> Point" where
  "screenToWorld_rounded rnd canvas st sx sy =
     (case canvas of
        None \<Rightarrow> \<lparr>pt_x = 0, pt_y = 0, pressure = None\<rparr>
      | Some rect \<Rightarrow>
          \<lparr>pt_x = rnd (rnd (rnd (sx - rect_left rect) - fst (pan st)) / zoom st),
           pt_y = rnd (rnd (rnd (sy - rect_top rect) - snd (pan st)) / zoom st),
           pressure = None\<rparr>)"

record WheelEvent =
  wheel_clientX :: real
  wheel_clientY :: real
  deltaY :: real
  ctrlKey :: bool
  metaKey :: bool

text \<open>\<open>handleWheel\<close> asserts the canvas to be mounted (\<open>canvasRef.current!\<close>).\<close>

definition handleWheel :: "(real \<Rightarrow> real) \<Rightarrow> DOMRect \<Rightarrow> WheelEvent \<Rightarrow> AppState \<Rightarrow> AppState" where
  "handleWheel rnd rect e st =
     (if ctrlKey e \<or> metaKey e then
        let zoomIntensity = rnd 0.1;
            direction = (if deltaY e > 0 then - 1 else 1);
            newZoom = min (max (rnd 0.1) (rnd (zoom st + rnd (direction * zoomIntensity)))) 5;
            pointerX = rnd (wheel_clientX e - rect_left rect);
            pointerY = rnd (wheel_clientY e - rect_top rect);
            worldX = rnd (rnd (pointerX - fst (pan st)) / zoom st);
            worldY = rnd (rnd (pointerY - snd (pan st)) / zoom st);
            newPanX = rnd (pointerX - rnd (worldX * newZoom));
            newPanY = rnd (pointerY - rnd (worldY * newZoom))
        in st\<lparr>zoom := newZoom, pan := (newPanX, newPanY)\<rparr>
      else st)"

text \<open>\<open>changeZoom\<close> reads the size of the window, \<open>window.innerWidth\<close> and
  \<open>window.innerHeight\<close>.\<close>

definition changeZoom :: "(real \<Rightarrow> real) \<Rightarrow> real \<Rightarrow> real \<Rightarrow> real \<Rightarrow> AppState \<Rightarrow> AppState" where
  "changeZoom rnd innerWidth innerHeight delta st =
     (let newZoom = min (max (rnd 0.1) (rnd (zoom st + delta))) 5;
          centerX = rnd (innerWidth / 2);
          centerY = rnd (innerHeight / 2);
          worldX = rnd (rnd (centerX - fst (pan st)) / zoom st);
          worldY = rnd (rnd (centerY - snd (pan st)) / zoom st);
          newPanX = rnd (centerX - rnd (worldX * newZoom));
          newPanY = rnd (centerY - rnd (worldY * newZoom))
      in st\<lparr>zoom := newZoom, pan := (newPanX, newPanY)\<rparr>)"

section \<open>History manager (App.tsx)\<close>

text \<open>
  \<open>slice(0, n)\<close> is \<open>take n\<close>, \<open>push\<close> appends, \<open>shift\<close> drops the head.  The cursor
  \<open>historyStep\<close> starts at 0 and is only ever set to the length of a non-empty history
  minus one, or moved by one under the guards of \<open>undo\<close> and \<open>redo\<close>; it is a natural
  number.
\<close>

definition saveHistory :: "CanvasElement list \<Rightarrow> AppState \<Rightarrow> AppState" where
  "saveHistory newElements prev =
     (let newHistory = take (historyStep prev + 1) (history prev);
          newHistory = newHistory @ [newElements];
          newHistory = (if length newHistory > 50 then tl newHistory else newHistory)
      in prev\<lparr>elements := newElements,
              history := newHistory,
              historyStep := length newHistory - 1\<rparr>)"

text \<open>
  An array read out of range yields \<open>undefined\<close> in JavaScript.  The state's element
  list would then no longer be a list; \<open>undo\<close> and \<open>redo\<close> report that as \<open>None\<close>.
\<close>

definition js_index :: "'a list \<Rightarrow> nat \<Rightarrow> 'a option" where
  "js_index xs i = (if i < length xs then Some (xs ! i) else None)"

definition undo :: "AppState \<Rightarrow> AppState option" where
  "undo st =
     (if historyStep st > 0 then
        (case js_index (history st) (historyStep st - 1) of
           None \<Rightarrow> None
         | Some es \<Rightarrow> Some (st\<lparr>historyStep := historyStep st - 1, elements := es\<rparr>))
      else Some st)"

definition redo :: "AppState \<Rightarrow> AppState option" where
  "redo st =
     (if int (historyStep st) < int (length (history st)) - 1 then
        (case js_index (history st) (historyStep st + 1) of
           None \<Rightarrow> None
         | Some es \<Rightarrow> Some (st\<lparr>historyStep := historyStep st + 1, elements := es\<rparr>))
      else Some st)"

text \<open>A run of commits, one snapshot after the other.\<close>

fun commits :: "CanvasElement list list \<Rightarrow> AppState \<Rightarrow> AppState" where
  "commits [] st = st"
| "commits (es # rest) st = commits rest (saveHistory es st)"

text \<open>The state \<open>useState\<close> starts from.\<close>

definition initialState :: AppState where
  "initialState =
     \<lparr>elements = [],
      layers = [\<lparr>layer_id = ''layer-1'', layer_name = ''Layer 1'', visible = True, locked = False\<rparr>],
      activeLayerId = ''layer-1'',
      selectedTool = ToolPen,
      currentColor = ''#000000'',
      currentSize = 4,
      zoom = 1,
      pan = (0, 0),
      history = [[]],
      historyStep = 0\<rparr>"

section \<open>Eraser engine (handlePointerMove)\<close>

text \<open>
  The callback of \<open>state.elements.filter\<close>: True keeps the element.  A shape that has its
  \<open>x\<close> but lacks another number it computes with compares NaN by \<open>>\<close>, which is false,
  so the element is dropped.
\<close>

definition eraserKeep :: "AppState \<Rightarrow> Point \<Rightarrow> CanvasElement \<Rightarrow> bool" where
  "eraserKeep st pos el =
     (let eraserRadius = currentSize st * 2 in
      if layerId el \<noteq> activeLayerId st then True
      else if el_type el = Stroke \<and> points el \<noteq> None then
        \<not> list_ex (\<lambda>p. hypot (pt_x p - pt_x pos) (pt_y p - pt_y pos) < eraserRadius)
             (the (points el))
      else if el_type el \<in> {Rectangle, Circle} \<and> el_x el \<noteq> None then
        (case (el_x el, el_y el, width el, height el) of
           (Some x, Some y, Some w, Some h) \<Rightarrow>
             let cx = x + w / 2;
                 cy = y + h / 2
             in hypot (cx - pt_x pos) (cy - pt_y pos) > max \<bar>w\<bar> \<bar>h\<bar> / 2 + eraserRadius
         | _ \<Rightarrow> False)
      else if el_type el = Line \<and> el_x el \<noteq> None \<and> width el \<noteq> None \<and> height el \<noteq> None then
        (case (el_x el, el_y el, width el, height el) of
           (Some x, Some y, Some w, Some h) \<Rightarrow>
             let x1 = x; y1 = y; x2 = x + w; y2 = y + h;
                 dist = distanceToSegment pos \<lparr>pt_x = x1, pt_y = y1, pressure = None\<rparr>
                                           \<lparr>pt_x = x2, pt_y = y2, pressure = None\<rparr>
             in dist > max 5 (currentSize st) + 5
         | _ \<Rightarrow> False)
      else if el_type el = Text \<and> el_x el \<noteq> None then
        (case (el_x el, el_y el) of
           (Some x, Some y) \<Rightarrow>
             let dist = hypot (x - pt_x pos) (y - pt_y pos) in dist > 20
         | _ \<Rightarrow> False)
      else True)"

section \<open>Pointer gestures (App.tsx)\<close>

text \<open>
  Beside the \<open>AppState\<close> the component keeps the state of the gesture in progress:
  \<open>isDrawing\<close>, \<open>currentPoints\<close>, \<open>dragStart\<close>, the open text box and the last pointer
  position of a pan.
\<close>

record TextInput =
  ti_x :: real
  ti_y :: real
  ti_value :: js_text

record App =
  state :: AppState
  isDrawing :: bool
  currentPoints :: "Point list"
  dragStart :: "Point option"
  textInput :: "TextInput option"
  lastPointerPos :: "(real \<times> real) option"

text \<open>
  \<open>value.trim() !== ''\<close> holds when some code unit is not among those \<open>trim\<close> strips:
  the white space and the line terminators of ECMAScript (tab, line feed, vertical tab,
  form feed, carriage return, space, no-break space, U+1680, U+2000 to U+200A, U+2028,
  U+2029, U+202F, U+205F, U+3000 and U+FEFF).
\<close>

definition js_whitespace :: "nat \<Rightarrow> bool" where
  "js_whitespace c \<longleftrightarrow>
     c \<in> {0x09, 0x0A, 0x0B, 0x0C, 0x0D, 0x20, 0xA0, 0x1680, 0x2028, 0x2029, 0x202F, 0x205F,
          0x3000, 0xFEFF} \<or> (0x2000 \<le> c \<and> c \<le> 0x200A)"

definition trim_nonempty :: "js_text \<Rightarrow> bool" where
  "trim_nonempty v = list_ex (\<lambda>c. \<not> js_whitespace c) v"

text \<open>\<open>generateId()\<close> draws a random identifier; the handlers take it as \<open>newId\<close>.\<close>

definition handleTextSubmit :: "string \<Rightarrow> App \<Rightarrow> App" where
  "handleTextSubmit newId a =
     (case textInput a of
        None \<Rightarrow> a
      | Some ti \<Rightarrow>
          if trim_nonempty (ti_value ti) then
            let st = state a;
                newElement =
                  \<lparr>el_id = newId, el_type = Text, layerId = activeLayerId st,
                   points = None, el_x = Some (ti_x ti), el_y = Some (ti_y ti),
                   width = None, height = None, el_text = Some (ti_value ti),
                   style = \<lparr>color = currentColor st, style_size = currentSize st,
                            isHighlighter = None\<rparr>\<rparr>
            in a\<lparr>state := saveHistory (elements st @ [newElement]) st, textInput := None\<rparr>
          else a\<lparr>textInput := None\<rparr>)"

definition handlePointerDown :: "DOMRect option \<Rightarrow> string \<Rightarrow> PointerEvent \<Rightarrow> App \<Rightarrow> App" where
  "handlePointerDown canvas newId e a =
     (let st = state a in
      if selectedTool st = ToolMove then
        a\<lparr>isDrawing := True, lastPointerPos := Some (clientX e, clientY e)\<rparr>
      else
        case getActiveLayer st of
          None \<Rightarrow> a
        | Some layer \<Rightarrow>
            if locked layer then a
            else
              let pos = getPointerPos canvas st e in
              if selectedTool st = ToolText then
                (let a = (if textInput a \<noteq> None then handleTextSubmit newId a else a)
                 in a\<lparr>textInput := Some \<lparr>ti_x = pt_x pos, ti_y = pt_y pos, ti_value = []\<rparr>\<rparr>)
              else a\<lparr>isDrawing := True, dragStart := Some pos, currentPoints := [pos]\<rparr>)"

definition handlePointerMove :: "DOMRect option \<Rightarrow> PointerEvent \<Rightarrow> App \<Rightarrow> App" where
  "handlePointerMove canvas e a =
     (let st = state a in
      if \<not> isDrawing a then a
      else if selectedTool st = ToolMove \<and> lastPointerPos a \<noteq> None then
        (let dx = clientX e - fst (the (lastPointerPos a));
             dy = clientY e - snd (the (lastPointerPos a))
         in a\<lparr>state := st\<lparr>pan := (fst (pan st) + dx, snd (pan st) + dy)\<rparr>,
              lastPointerPos := Some (clientX e, clientY e)\<rparr>)
      else
        let pos = getPointerPos canvas st e in
        if selectedTool st = ToolPen then a\<lparr>currentPoints := currentPoints a @ [pos]\<rparr>
        else if selectedTool st = ToolEraser then
          (let elementsToKeep = filter (eraserKeep st pos) (elements st) in
           if length elementsToKeep \<noteq> length (elements st)
           then a\<lparr>currentPoints := [pos], state := st\<lparr>elements := elementsToKeep\<rparr>\<rparr>
           else a\<lparr>currentPoints := [pos]\<rparr>)
        else a\<lparr>currentPoints := currentPoints a @ [pos]\<rparr>)"

text \<open>\<open>['rectangle', 'circle', 'line'].includes(tool)\<close> and the cast of the tool to the
  element type.\<close>

definition shapeOfTool :: "ToolType \<Rightarrow> ElementType option" where
  "shapeOfTool tool =
     (case tool of
        ToolRectangle \<Rightarrow> Some Rectangle
      | ToolCircle \<Rightarrow> Some Circle
      | ToolLine \<Rightarrow> Some Line
      | _ \<Rightarrow> None)"

definition handlePointerUp :: "DOMRect option \<Rightarrow> string \<Rightarrow> PointerEvent \<Rightarrow> App \<Rightarrow> App" where
  "handlePointerUp canvas newId e a =
     (let st = state a in
      if \<not> isDrawing a then a
      else
        let a = a\<lparr>isDrawing := False, lastPointerPos := None\<rparr> in
        if selectedTool st = ToolMove then a
        else
          case getActiveLayer st of
            None \<Rightarrow> a
          | Some layer \<Rightarrow>
              if locked layer then a
              else
                let endPos = getPointerPos canvas st e;
                    newStyle = \<lparr>color = currentColor st, style_size = currentSize st,
                                isHighlighter = None\<rparr>;
                    a =
                      (if selectedTool st = ToolPen then
                         let finalPoints = getSplinePoints (currentPoints a);
                             newElement =
                               \<lparr>el_id = newId, el_type = Stroke, layerId = layer_id layer,
                                points = Some finalPoints, el_x = None, el_y = None,
                                width = None, height = None, el_text = None, style = newStyle\<rparr>
                         in a\<lparr>state := saveHistory (elements st @ [newElement]) st\<rparr>
                       else if shapeOfTool (selectedTool st) \<noteq> None \<and> dragStart a \<noteq> None then
                         let w = pt_x endPos - pt_x (the (dragStart a));
                             h = pt_y endPos - pt_y (the (dragStart a))
                         in if \<bar>w\<bar> > 5 \<or> \<bar>h\<bar> > 5 then
                              let newElement =
                                    \<lparr>el_id = newId, el_type = the (shapeOfTool (selectedTool st)),
                                     layerId = layer_id layer, points = None,
                                     el_x = Some (pt_x (the (dragStart a))),
                                     el_y = Some (pt_y (the (dragStart a))),
                                     width = Some w, height = Some h, el_text = None,
                                     style = newStyle\<rparr>
                              in a\<lparr>state := saveHistory (elements st @ [newElement]) st\<rparr>
                            else a
                       else if selectedTool st = ToolEraser then
                         a\<lparr>state := saveHistory (elements st) st\<rparr>
                       else a)
                in a\<lparr>currentPoints := [], dragStart := None\<rparr>)"

section \<open>Loading a document (handleFileChange)\<close>

text \<open>
  \<open>JSON.parse\<close> belongs to the platform and is a parameter: it yields \<open>None\<close> where it
  throws a SyntaxError.  Of the parsed value the loader looks at two fields, and the
  model types what it finds there.
  \<open>JsonNull\<close> is the value \<open>null\<close>, whose field access throws a TypeError.
  In \<open>JsonValue es ls\<close>, \<open>es\<close> is \<open>Some\<close> when \<open>data.elements\<close> is an array, taken to
  hold elements, which the loader stores without looking at them.  \<open>ls\<close> tells what
  \<open>data.layers\<close> is: not an array (or missing); an array of layer objects; or an array
  whose first entry is \<open>null\<close>, on which \<open>newLayers[0].id\<close> throws a TypeError.  A number,
  a string or a boolean has neither field and is \<open>JsonValue None NotAnArray\<close>.
  Every exception inside the \<open>try\<close> is caught and reported as a failed load.
  The second component of the result is the text shown by \<open>alert\<close>, if any.
\<close>

datatype JsonLayers = NotAnArray | LayerObjects "Layer list" | NullFirst

datatype JsonData = JsonNull | JsonValue "CanvasElement list option" JsonLayers

definition reader_onload ::
  "(string \<Rightarrow> JsonData option) \<Rightarrow> string \<Rightarrow> AppState \<Rightarrow> AppState \<times> string option" where
  "reader_onload parse result prev =
     (if result = [] then (prev, None)
      else
        case parse result of
          None \<Rightarrow> (prev, Some ''Failed to load project file.'')
        | Some JsonNull \<Rightarrow> (prev, Some ''Failed to load project file.'')
        | Some (JsonValue None ls) \<Rightarrow> (prev, Some ''Invalid project file format.'')
        | Some (JsonValue (Some dataElements) ls) \<Rightarrow>
            let newLayers =
                  (case ls of
                     LayerObjects dataLayers \<Rightarrow>
                       if length dataLayers > 0 then Some dataLayers
                       else Some [\<lparr>layer_id = ''layer-1'', layer_name = ''Layer 1'',
                                   visible = True, locked = False\<rparr>]
                   | NullFirst \<Rightarrow> None
                   | NotAnArray \<Rightarrow> Some [\<lparr>layer_id = ''layer-1'', layer_name = ''Layer 1'',
                                            visible = True, locked = False\<rparr>])
            in
              (case newLayers of
                 None \<Rightarrow> (prev, Some ''Failed to load project file.'')
               | Some newLayers \<Rightarrow>
                   let newActiveLayerId = layer_id (newLayers ! 0)
                   in (prev\<lparr>elements := dataElements,
                            layers := newLayers,
                            activeLayerId := newActiveLayerId,
                            zoom := 1,
                            pan := (0, 0),
                            history := [dataElements],
                            historyStep := 0\<rparr>, None)))"

text \<open>The layer the loader substitutes when the document brings none.\<close>

definition default_layer :: Layer where
  "default_layer = \<lparr>layer_id = ''layer-1'', layer_name = ''Layer 1'', visible = True, locked = False\<rparr>"

text \<open>
  \<open>file\<close> is the text of the chosen file, if one was chosen; \<open>confirmed\<close> is the answer
  to \<open>window.confirm\<close>, asked only over a canvas that has elements.
\<close>

definition handleFileChange ::
  "(string \<Rightarrow> JsonData option) \<Rightarrow> string option \<Rightarrow> bool \<Rightarrow> AppState \<Rightarrow> AppState \<times> string option" where
  "handleFileChange parse file confirmed st =
     (case file of
        None \<Rightarrow> (st, None)
      | Some content \<Rightarrow>
          if length (elements st) > 0 \<and> \<not> confirmed then (st, None)
          else reader_onload parse content st)"

section \<open>Layer operations (App.tsx, LayerManager.tsx)\<close>

fun string_of_nat :: "nat \<Rightarrow> string" where
  "string_of_nat n =
     (if n < 10 then [char_of (48 + n)]
      else string_of_nat (n div 10) @ [char_of (48 + n mod 10)])"

declare string_of_nat.simps [simp del]

definition addLayer :: "string \<Rightarrow> AppState \<Rightarrow> AppState" where
  "addLayer newId st =
     (let newLayer = \<lparr>layer_id = newId,
                      layer_name = ''Layer '' @ string_of_nat (length (layers st) + 1),
                      visible = True, locked = False\<rparr>
      in st\<lparr>layers := layers st @ [newLayer], activeLayerId := layer_id newLayer\<rparr>)"

definition onSetActive :: "string \<Rightarrow> AppState \<Rightarrow> AppState" where
  "onSetActive i prev = prev\<lparr>activeLayerId := i\<rparr>"

text \<open>\<open>newLayers[newLayers.length - 1]?.id || ''\<close>: the empty string when no layer
  remains (and when the last layer's id is itself the empty string).\<close>

definition onDelete :: "string \<Rightarrow> AppState \<Rightarrow> AppState" where
  "onDelete i prev =
     (let newLayers = filter (\<lambda>l. layer_id l \<noteq> i) (layers prev) in
      prev\<lparr>layers := newLayers,
            activeLayerId :=
              (if activeLayerId prev = i
               then (if newLayers = [] then [] else layer_id (last newLayers))
               else activeLayerId prev)\<rparr>)"

definition onToggleVisible :: "string \<Rightarrow> AppState \<Rightarrow> AppState" where
  "onToggleVisible i prev =
     prev\<lparr>layers := map (\<lambda>l. if layer_id l = i then l\<lparr>visible := \<not> visible l\<rparr> else l) (layers prev)\<rparr>"

definition onToggleLock :: "string \<Rightarrow> AppState \<Rightarrow> AppState" where
  "onToggleLock i prev =
     prev\<lparr>layers := map (\<lambda>l. if layer_id l = i then l\<lparr>locked := \<not> locked l\<rparr> else l) (layers prev)\<rparr>"

text \<open>
  The commands the layer panel can send.  It renders one row per layer, with a delete
  button only while \<open>layers.length > 1\<close>, and nothing at all while it is closed; a
  command it does not offer is \<open>None\<close>.
\<close>

datatype LayerCommand =
  SetActive string | Add string | Delete string | ToggleVisible string | ToggleLock string

definition LayerManager :: "bool \<Rightarrow> LayerCommand \<Rightarrow> AppState \<Rightarrow> AppState option" where
  "LayerManager isOpen cmd st =
     (if \<not> isOpen then None
      else
        case cmd of
          Add newId \<Rightarrow> Some (addLayer newId st)
        | SetActive i \<Rightarrow>
            if i \<in> set (map layer_id (layers st)) then Some (onSetActive i st) else None
        | ToggleVisible i \<Rightarrow>
            if i \<in> set (map layer_id (layers st)) then Some (onToggleVisible i st) else None
        | ToggleLock i \<Rightarrow>
            if i \<in> set (map layer_id (layers st)) then Some (onToggleLock i st) else None
        | Delete i \<Rightarrow>
            if i \<in> set (map layer_id (layers st)) \<and> length (layers st) > 1
            then Some (onDelete i st) else None)"

section \<open>Sample documents\<close>

text \<open>Concrete elements, layers, states and events on which the theorems below are run.\<close>

definition sample_style :: StrokeStyle where
  "sample_style = \<lparr>color = ''#000000'', style_size = 4, isHighlighter = None\<rparr>"

text \<open>A shape of the given kind on the given layer, anchored at the origin, 10 by 10.\<close>

definition sample_shape :: "ElementType \<Rightarrow> string \<Rightarrow> CanvasElement" where
  "sample_shape kind layer =
     \<lparr>el_id = ''e1'', el_type = kind, layerId = layer, points = None,
      el_x = Some 0, el_y = Some 0, width = Some 10, height = Some 10,
      el_text = None, style = sample_style\<rparr>"

definition sample_stroke :: "string \<Rightarrow> Point list option \<Rightarrow> CanvasElement" where
  "sample_stroke layer ps =
     \<lparr>el_id = ''s1'', el_type = Stroke, layerId = layer, points = ps,
      el_x = None, el_y = None, width = None, height = None,
      el_text = None, style = sample_style\<rparr>"

text \<open>A layer of id \<open>a\<close> with the given visibility and lock.\<close>

definition sample_layer :: "bool \<Rightarrow> bool \<Rightarrow> Layer" where
  "sample_layer vis lck = \<lparr>layer_id = ''a'', layer_name = ''A'', visible = vis, locked = lck\<rparr>"

text \<open>The initial state with one given layer, which is active, and a given tool.\<close>

definition withLayer :: "Layer \<Rightarrow> ToolType \<Rightarrow> AppState" where
  "withLayer l tool = initialState\<lparr>layers := [l], activeLayerId := layer_id l, selectedTool := tool\<rparr>"

text \<open>The initial state with the eraser selected over given elements.\<close>

definition erasing :: "CanvasElement list \<Rightarrow> AppState" where
  "erasing els = initialState\<lparr>selectedTool := ToolEraser, elements := els\<rparr>"

definition two_layers :: AppState where
  "two_layers = initialState\<lparr>layers := [default_layer, sample_layer True False],
                               activeLayerId := ''a''\<rparr>"

text \<open>The component around a state, with or without a gesture in progress.\<close>

definition gesture :: "AppState \<Rightarrow> bool \<Rightarrow> Point list \<Rightarrow> App" where
  "gesture st drawing pts =
     \<lparr>state = st, isDrawing = drawing, currentPoints = pts, dragStart = None,
      textInput = None, lastPointerPos = None\<rparr>"

text \<open>A canvas whose top-left is the origin of the screen, and a pointer event on it.\<close>

definition origin_rect :: "DOMRect option" where
  "origin_rect = Some \<lparr>rect_left = 0, rect_top = 0\<rparr>"

definition pointer_at :: "real \<Rightarrow> real \<Rightarrow> PointerEvent" where
  "pointer_at cx cy = \<lparr>clientX = cx, clientY = cy, ev_pressure = 1\<rparr>"

text \<open>
  A stand-in for \<open>JSON.parse\<close> that reads every non-empty text as one given value and,
  like \<open>JSON.parse\<close>, rejects the empty text; and a document with two layers of one id.
\<close>

definition parse_as :: "JsonData \<Rightarrow> string \<Rightarrow> JsonData option" where
  "parse_as d content = (if content = [] then None else Some d)"

definition duplicate_ids :: JsonData where
  "duplicate_ids = JsonValue (Some []) (LayerObjects [sample_layer True False, sample_layer True False])"

text \<open>A wheel event that zooms in with the pointer at \<open>(15, 0)\<close>.\<close>

definition screen_origin :: DOMRect where
  "screen_origin = \<lparr>rect_left = 0, rect_top = 0\<rparr>"

definition zoom_in_at_15 :: WheelEvent where
  "zoom_in_at_15 =
     \<lparr>wheel_clientX = 15, wheel_clientY = 0, deltaY = - 1, ctrlKey = True, metaKey = False\<rparr>"

section \<open>Facts about the geometry kernel\<close>

lemma hypot_nonneg: "0 \<le> hypot a b"
  by (simp add: hypot_def)

lemma hypot_axis: "hypot a 0 = \<bar>a\<bar>"
  by (simp add: hypot_def)

lemma hypot_less_iff: "hypot a b < r \<longleftrightarrow> 0 < r \<and> a\<^sup>2 + b\<^sup>2 < r\<^sup>2"
proof (cases "0 < r")
  case True
  have "sqrt (a\<^sup>2 + b\<^sup>2) < r \<longleftrightarrow> a\<^sup>2 + b\<^sup>2 < r\<^sup>2"
    using True by (metis real_sqrt_less_iff real_sqrt_abs abs_of_pos)
  then show ?thesis
    using True unfolding hypot_def by blast
next
  case False
  then show ?thesis
    using hypot_nonneg [of a b] by linarith
qed

lemma hypot_le_iff: "0 \<le> r \<Longrightarrow> hypot a b \<le> r \<longleftrightarrow> a\<^sup>2 + b\<^sup>2 \<le> r\<^sup>2"
  unfolding hypot_def
  by (metis real_sqrt_le_iff real_sqrt_abs abs_of_nonneg)

text \<open>Both loops of \<open>getSplinePoints\<close> only append to the points pushed so far.\<close>

lemma inner_loop_eq:
  "inner_loop p0 p1 steps t acc =
     acc @ map (\<lambda>t. interpolated pressure_or_default p0 p1 (real t / real steps)) [t..<steps]"
proof (induction p0 p1 steps t acc rule: inner_loop.induct)
  case (1 p0 p1 steps t acc)
  show ?case
  proof (cases "t < steps")
    case True
    have "inner_loop p0 p1 steps t acc = inner_loop p0 p1 steps (t + 1)
             (acc @ [interpolated pressure_or_default p0 p1 (real t / real steps)])"
      using True by (subst inner_loop.simps) simp
    also have "\<dots> = (acc @ [interpolated pressure_or_default p0 p1 (real t / real steps)]) @
        map (\<lambda>t. interpolated pressure_or_default p0 p1 (real t / real steps)) [t + 1..<steps]"
      by (rule "1.IH" [OF True])
    finally show ?thesis
      by (simp add: upt_conv_Cons [OF True])
  next
    case False
    then show ?thesis by (subst inner_loop.simps) simp
  qed
qed

lemma outer_loop_eq:
  "outer_loop pts i acc =
     acc @ concat (map (\<lambda>i. interpolants pressure_or_default (pts ! i) (pts ! (i + 1))
                             @ [pts ! (i + 1)]) [i..<length pts - 2])"
proof (induction pts i acc rule: outer_loop.induct)
  case (1 pts i acc)
  show ?case
  proof (cases "int i < int (length pts) - 2")
    case True
    then have lt: "i < length pts - 2" by linarith
    define acc' where "acc' = inner_loop (pts ! i) (pts ! (i + 1))
        (steps_between (pts ! i) (pts ! (i + 1))) 1 acc @ [pts ! (i + 1)]"
    have "outer_loop pts i acc = outer_loop pts (i + 1) acc'"
      using True by (subst outer_loop.simps) (simp add: Let_def acc'_def)
    also have "\<dots> = acc' @ concat (map (\<lambda>i. interpolants pressure_or_default (pts ! i) (pts ! (i + 1))
                             @ [pts ! (i + 1)]) [i + 1..<length pts - 2])"
      unfolding acc'_def by (rule "1.IH" [OF True refl refl refl refl])
    finally show ?thesis
      by (simp add: acc'_def inner_loop_eq interpolants_def upt_conv_Cons [OF lt])
  next
    case False
    then have "\<not> i < length pts - 2" by linarith
    then show ?thesis
      using False by (subst outer_loop.simps) simp
  qed
qed

lemma getSplinePoints_resample: "getSplinePoints pts = resample pressure_or_default pts"
proof (cases "length pts < 3")
  case True
  then show ?thesis by (simp add: getSplinePoints_def resample_def)
next
  case False
  then have "pts \<noteq> []" by auto
  then have "pts ! 0 = hd pts" "pts ! (length pts - 1) = last pts"
    by (simp_all add: hd_conv_nth last_conv_nth)
  then show ?thesis
    using False by (simp add: getSplinePoints_def resample_def outer_loop_eq)
qed

lemma steps_between_axis:
  "pt_y p0 = pt_y p1 \<Longrightarrow> steps_between p0 p1 = nat \<lfloor>\<bar>pt_x p0 - pt_x p1\<bar> / 2\<rfloor> + 1"
  by (simp add: steps_between_def distance_def hypot_axis)

section \<open>View transform: round trip and zoom\<close>

text \<open>
  C1 (as amended).  With the canvas mounted and a zoom other than 0, in exact arithmetic,
  \<open>worldToScreen (screenToWorld (sx, sy))\<close> is the point relative to the top-left of the
  drawing surface, \<open>(sx - originX, sy - originY)\<close>, for every pan; it is \<open>(sx, sy)\<close>
  when the surface's top-left is the origin of the screen.
\<close>

theorem worldToScreen_screenToWorld:
  "zoom st \<noteq> 0 \<Longrightarrow>
     worldToScreen st (pt_x (screenToWorld (Some rect) st sx sy))
                      (pt_y (screenToWorld (Some rect) st sx sy))
       = (sx - rect_left rect, sy - rect_top rect) \<and>
     (rect_left rect = 0 \<and> rect_top rect = 0 \<longrightarrow>
        worldToScreen st (pt_x (screenToWorld (Some rect) st sx sy))
                         (pt_y (screenToWorld (Some rect) st sx sy)) = (sx, sy))"
  by (simp add: worldToScreen_def screenToWorld_def)

theorem worldToScreen_screenToWorld_witness:
  "zoom (initialState\<lparr>zoom := 2, pan := (30, 40)\<rparr>) \<noteq> 0 \<and>
   worldToScreen (initialState\<lparr>zoom := 2, pan := (30, 40)\<rparr>)
     (pt_x (screenToWorld (Some \<lparr>rect_left = 0, rect_top = 0\<rparr>)
              (initialState\<lparr>zoom := 2, pan := (30, 40)\<rparr>) 100 200))
     (pt_y (screenToWorld (Some \<lparr>rect_left = 0, rect_top = 0\<rparr>)
              (initialState\<lparr>zoom := 2, pan := (30, 40)\<rparr>) 100 200)) = (100, 200)"
  using worldToScreen_screenToWorld
          [of "initialState\<lparr>zoom := 2, pan := (30, 40)\<rparr>" "\<lparr>rect_left = 0, rect_top = 0\<rparr>" 100 200]
  by simp

text \<open>
  With the surface at \<open>(10, 20)\<close>, zoom 1 and no pan, the screen point \<open>(100, 100)\<close>
  comes back as \<open>(90, 80)\<close>.
\<close>

theorem worldToScreen_screenToWorld_counterexample:
  "worldToScreen initialState
     (pt_x (screenToWorld (Some \<lparr>rect_left = 10, rect_top = 20\<rparr>) initialState 100 100))
     (pt_y (screenToWorld (Some \<lparr>rect_left = 10, rect_top = 20\<rparr>) initialState 100 100))
   = (90, 80) \<and>
   worldToScreen initialState
     (pt_x (screenToWorld (Some \<lparr>rect_left = 10, rect_top = 20\<rparr>) initialState 100 100))
     (pt_y (screenToWorld (Some \<lparr>rect_left = 10, rect_top = 20\<rparr>) initialState 100 100))
   \<noteq> (100, 100)"
  by (simp add: worldToScreen_def screenToWorld_def initialState_def)

subsection \<open>Rounding to the nearest double\<close>

lemma pow2_powr: "pow2 k = 2 powr (of_int k)"
proof (cases "0 \<le> k")
  case True
  then show ?thesis
    by (simp add: pow2_def powr_real_of_int)
next
  case False
  then show ?thesis
    by (simp add: pow2_def powr_real_of_int field_simps)
qed

lemma pow2_pos: "0 < pow2 k"
  by (simp add: pow2_powr)

lemma binary64_binade:
  assumes "pow2 e \<le> \<bar>x\<bar>" "\<bar>x\<bar> < pow2 (e + 1)"
  shows "binary64 x = of_int (round_half_even (x / pow2 (e - 52))) * pow2 (e - 52)"
proof -
  have pos: "0 < \<bar>x\<bar>"
    using assms(1) pow2_pos [of e] by linarith
  have "\<lfloor>log 2 \<bar>x\<bar>\<rfloor> = e"
    using assms pos by (simp add: floor_log_eq_powr_iff pow2_powr)
  then show ?thesis
    using pos by (simp add: binary64_def Let_def)
qed


lemma pow2_add: "pow2 (j + k) = pow2 j * pow2 k"
  by (simp add: pow2_powr powr_add)

lemma round_half_even_int: "round_half_even (of_int n) = n"
  by (simp add: round_half_even_def)

text \<open>A number with a significand of 53 bits is a double, and rounding leaves it alone.\<close>

lemma binary64_representable:
  assumes m: "\<bar>m\<bar> < 2 ^ 53"
  shows "binary64 (of_int m * pow2 k) = of_int m * pow2 k"
proof (cases "m = 0")
  case True
  then show ?thesis by (simp add: binary64_def)
next
  case False
  define x where "x = real_of_int m * pow2 k"
  define e where "e = \<lfloor>log 2 \<bar>x\<bar>\<rfloor>"
  have xpos: "0 < \<bar>x\<bar>"
    using False pow2_pos [of k] by (simp add: x_def)
  have bin: "pow2 e \<le> \<bar>x\<bar>" "\<bar>x\<bar> < pow2 (e + 1)"
    using xpos floor_log_eq_powr_iff [of "\<bar>x\<bar>" 2 e] by (simp_all add: e_def pow2_powr)
  have "real_of_int \<bar>m\<bar> < 2 ^ 53"
    using m by (metis of_int_less_numeral_power_cancel_iff)
  then have "\<bar>x\<bar> < pow2 53 * pow2 k"
    using pow2_pos [of k] by (simp add: x_def abs_mult pow2_def)
  then have "pow2 e < pow2 (53 + k)"
    using bin(1) by (simp add: pow2_add)
  then have "e < 53 + k"
    by (simp add: pow2_powr)
  then have j: "0 \<le> k - e + 52" by simp
  have split: "pow2 k = pow2 (k - e + 52) * pow2 (e - 52)"
    using pow2_add [of "k - e + 52" "e - 52"] by simp
  have "x / pow2 (e - 52) = real_of_int m * pow2 (k - e + 52)"
    using pow2_pos [of "e - 52"] by (simp add: x_def split)
  also have "\<dots> = real_of_int (m * 2 ^ nat (k - e + 52))"
    using j by (simp add: pow2_def)
  finally have "round_half_even (x / pow2 (e - 52)) = m * 2 ^ nat (k - e + 52)"
    by (simp only: round_half_even_int)
  then have "binary64 x = real_of_int (m * 2 ^ nat (k - e + 52)) * pow2 (e - 52)"
    using binary64_binade [OF bin] by simp
  also have "\<dots> = real_of_int m * pow2 (k - e + 52) * pow2 (e - 52)"
    using j by (simp add: pow2_def)
  also have "\<dots> = x"
    by (simp add: x_def split)
  finally show ?thesis
    by (simp add: x_def)
qed

text \<open>Rounding changes a number by at most \<open>2\<^sup>-\<^sup>5\<^sup>3\<close> of its size.\<close>

lemma round_half_even_error: "\<bar>of_int (round_half_even r) - r\<bar> \<le> 1 / 2"
proof -
  have "of_int \<lfloor>r\<rfloor> \<le> r" "r < of_int \<lfloor>r\<rfloor> + 1"
    by linarith+
  then show ?thesis
    by (auto simp add: round_half_even_def Let_def)
qed

lemma binary64_error: "\<bar>binary64 x - x\<bar> \<le> \<bar>x\<bar> / 2 ^ 53"
proof (cases "x = 0")
  case True
  then show ?thesis by (simp add: binary64_def)
next
  case False
  define e where "e = \<lfloor>log 2 \<bar>x\<bar>\<rfloor>"
  define ulp where "ulp = pow2 (e - 52)"
  have xpos: "0 < \<bar>x\<bar>" using False by simp
  have bin: "pow2 e \<le> \<bar>x\<bar>"
    using xpos floor_log_eq_powr_iff [of "\<bar>x\<bar>" 2 e] by (simp add: e_def pow2_powr)
  have ulp: "0 < ulp" by (simp add: ulp_def pow2_pos)
  have e52: "pow2 e = 2 ^ 52 * ulp"
    using pow2_add [of 52 "e - 52"] by (simp add: ulp_def pow2_def)
  have b: "binary64 x = of_int (round_half_even (x / ulp)) * ulp"
    using False by (simp add: binary64_def Let_def e_def ulp_def)
  have "binary64 x - x = (of_int (round_half_even (x / ulp)) - x / ulp) * ulp"
    using ulp by (simp add: b field_simps)
  then have "\<bar>binary64 x - x\<bar> = \<bar>of_int (round_half_even (x / ulp)) - x / ulp\<bar> * ulp"
    using ulp by (simp add: abs_mult)
  also have "\<dots> \<le> 1 / 2 * ulp"
    using round_half_even_error [of "x / ulp"] ulp by (simp add: mult_right_mono)
  also have "\<dots> = pow2 e / 2 ^ 53"
    by (simp add: e52)
  also have "\<dots> \<le> \<bar>x\<bar> / 2 ^ 53"
    using bin by (simp add: divide_right_mono)
  finally show ?thesis .
qed

text \<open>
  Zooming about the position \<open>t\<close> on the surface in doubles: the world point \<open>w\<close> under
  \<open>t\<close> is multiplied by the new zoom, subtracted from \<open>t\<close> to give the new pan, and read
  back through the new pan and zoom.  Four roundings lie between \<open>w\<close> and what is read
  back.
\<close>

lemma scaled_error:
  fixes r x nz :: real
  assumes "0 < nz"
  shows "\<bar>binary64 x / nz - x / nz\<bar> \<le> \<bar>x / nz\<bar> / 2 ^ 53"
proof -
  have "binary64 x / nz - x / nz = (binary64 x - x) / nz"
    by (simp add: diff_divide_distrib)
  then have "\<bar>binary64 x / nz - x / nz\<bar> = \<bar>binary64 x - x\<bar> / nz"
    using assms by simp
  also have "\<dots> \<le> \<bar>x\<bar> / 2 ^ 53 / nz"
    by (rule divide_right_mono [OF binary64_error]) (use assms in simp)
  also have "\<dots> = \<bar>x / nz\<bar> / 2 ^ 53"
    using assms by simp
  finally show ?thesis .
qed

lemma rezoom_error:
  fixes t w nz :: real
  assumes nz: "0 < nz"
  shows "\<bar>binary64 (binary64 (t - binary64 (t - binary64 (w * nz))) / nz) - w\<bar>
           \<le> (5 * \<bar>w\<bar> + 2 * \<bar>t\<bar> / nz) / 2 ^ 53"
proof -
  define m where "m = binary64 (w * nz)"
  define np where "np = binary64 (t - m)"
  define a where "a = binary64 (t - np)"
  define w' where "w' = binary64 (a / nz)"
  define M where "M = m / nz"
  define NP where "NP = np / nz"
  define A where "A = a / nz"
  define T where "T = t / nz"
  have e3: "\<bar>M - w\<bar> \<le> \<bar>w\<bar> / 2 ^ 53"
    using scaled_error [OF nz, of "w * nz"] nz by (simp add: M_def m_def)
  have "(t - m) / nz = T - M" "(t - np) / nz = T - NP"
    by (simp_all add: T_def M_def NP_def diff_divide_distrib)
  then have e1: "\<bar>NP - (T - M)\<bar> \<le> \<bar>T - M\<bar> / 2 ^ 53"
    and e2: "\<bar>A - (T - NP)\<bar> \<le> \<bar>T - NP\<bar> / 2 ^ 53"
    using scaled_error [OF nz, of "t - m"] scaled_error [OF nz, of "t - np"]
    by (simp_all add: NP_def np_def A_def a_def)
  have e4: "\<bar>w' - A\<bar> \<le> \<bar>A\<bar> / 2 ^ 53"
    using binary64_error [of "a / nz"] by (simp add: w'_def A_def)
  define d1 where "d1 = \<bar>NP - (T - M)\<bar>"
  define d2 where "d2 = \<bar>A - (T - NP)\<bar>"
  define d3 where "d3 = \<bar>M - w\<bar>"
  define d4 where "d4 = \<bar>w' - A\<bar>"
  have t1: "\<bar>M\<bar> \<le> \<bar>w\<bar> + d3"
    unfolding d3_def by linarith
  have t2: "\<bar>T - M\<bar> \<le> \<bar>T\<bar> + \<bar>M\<bar>"
    by linarith
  have t3: "\<bar>T - NP\<bar> \<le> \<bar>M\<bar> + d1"
    unfolding d1_def by linarith
  have t4: "\<bar>A\<bar> \<le> \<bar>M\<bar> + d1 + d2"
    unfolding d1_def d2_def by linarith
  have t5: "\<bar>w' - w\<bar> \<le> d4 + d2 + d1 + d3"
    unfolding d1_def d2_def d3_def d4_def by linarith
  have nonneg: "0 \<le> d1" "0 \<le> d2" "0 \<le> d3" "0 \<le> d4"
    by (simp_all add: d1_def d2_def d3_def d4_def)
  have big: "d * 16 \<le> d * 9007199254740992" if "0 \<le> d" for d :: real
    using that by (simp add: mult_left_mono)
  have s3: "d3 * 16 \<le> \<bar>w\<bar>" and s1: "d1 * 16 \<le> \<bar>T - M\<bar>" and s2: "d2 * 16 \<le> \<bar>T - NP\<bar>"
    using e1 e2 e3 big [OF nonneg(1)] big [OF nonneg(2)] big [OF nonneg(3)]
    by (simp_all add: d1_def d2_def d3_def)
  have small: "3 * d3 + 2 * d1 + d2 \<le> \<bar>w\<bar> + \<bar>T\<bar>"
    using s1 s2 s3 t1 t2 t3 nonneg by linarith
  have "\<bar>w' - w\<bar> * 9007199254740992 \<le> (d4 + d2 + d1 + d3) * 9007199254740992"
    using t5 by (simp add: mult_right_mono)
  also have "\<dots> = d4 * 9007199254740992 + d2 * 9007199254740992 + d1 * 9007199254740992
      + d3 * 9007199254740992"
    by (simp add: algebra_simps)
  also have "\<dots> \<le> \<bar>A\<bar> + \<bar>T - NP\<bar> + \<bar>T - M\<bar> + \<bar>w\<bar>"
    using e1 e2 e3 e4 by (simp add: d1_def d2_def d3_def d4_def)
  also have "\<dots> \<le> 5 * \<bar>w\<bar> + 2 * \<bar>T\<bar>"
    using small t1 t2 t3 t4 by linarith
  finally have "\<bar>w' - w\<bar> * 9007199254740992 \<le> 5 * \<bar>w\<bar> + 2 * \<bar>T\<bar>" .
  then have "\<bar>w' - w\<bar> \<le> (5 * \<bar>w\<bar> + 2 * \<bar>T\<bar>) / 2 ^ 53"
    by simp
  moreover have "\<bar>T\<bar> = \<bar>t\<bar> / nz"
    using nz by (simp add: T_def)
  ultimately show ?thesis
    by (simp add: w'_def a_def np_def m_def)
qed

lemma binary64_numeral:
  "(numeral n :: int) < 2 ^ 53 \<Longrightarrow> binary64 (numeral n) = numeral n"
  "(numeral n :: int) < 2 ^ 53 \<Longrightarrow> binary64 (- numeral n) = - numeral n"
  using binary64_representable [of "numeral n" 0] binary64_representable [of "- numeral n" 0]
  by (simp_all add: pow2_def)

text \<open>The roundings met when the wheel zooms in at \<open>clientX = 15\<close> from the initial state.\<close>

lemma binary64_tenth: "binary64 (1 / 10) = 3602879701896397 / 36028797018963968"
  by (subst binary64_binade [of "- 4"]) (simp_all add: pow2_def round_half_even_def)

lemma binary64_tenth_again:
  "binary64 (3602879701896397 / 36028797018963968) = 3602879701896397 / 36028797018963968"
  by (subst binary64_binade [of "- 4"]) (simp_all add: pow2_def round_half_even_def)

lemma binary64_new_zoom:
  "binary64 (39631676720860365 / 36028797018963968) = 2476979795053773 / 2251799813685248"
  by (subst binary64_binade [of 0]) (simp_all add: pow2_def round_half_even_def)

lemma binary64_product:
  "binary64 (37154696925806595 / 2251799813685248) = 33 / 2"
  by (subst binary64_binade [of 4]) (simp_all add: pow2_def round_half_even_def)

lemma binary64_halves:
  "binary64 (- (3 / 2)) = - (3 / 2)"
  "binary64 (33 / 2) = 33 / 2"
  using binary64_representable [of "- 3" "- 1"] binary64_representable [of 33 "- 1"]
  by (simp_all add: pow2_def)

lemma binary64_quotient:
  "binary64 (12384898975268864 / 825659931684591) = 8444249301319679 / 562949953421312"
  by (subst binary64_binade [of 3]) (simp_all add: pow2_def round_half_even_def)

subsection \<open>Zoom\<close>

lemma screenToWorld_rounded_exact:
  "screenToWorld_rounded (\<lambda>x. x) canvas st sx sy = screenToWorld canvas st sx sy"
  by (simp add: screenToWorld_rounded_def screenToWorld_def)

lemma new_zoom_positive: "0 < min (max (1 / 10) z) (5::real)"
  by simp

lemma point_eqI:
  "pt_x p = pt_x q \<Longrightarrow> pt_y p = pt_y q \<Longrightarrow> pressure p = pressure q \<Longrightarrow> (p::Point) = q"
  by simp

lemma handleWheel_pan:
  "ctrlKey e \<or> metaKey e \<Longrightarrow>
     pan (handleWheel rnd rect e st) =
       (rnd (rnd (wheel_clientX e - rect_left rect)
          - rnd (pt_x (screenToWorld_rounded rnd (Some rect) st (wheel_clientX e) (wheel_clientY e))
                 * zoom (handleWheel rnd rect e st))),
        rnd (rnd (wheel_clientY e - rect_top rect)
          - rnd (pt_y (screenToWorld_rounded rnd (Some rect) st (wheel_clientX e) (wheel_clientY e))
                 * zoom (handleWheel rnd rect e st))))"
  by (simp add: handleWheel_def screenToWorld_rounded_def Let_def)

lemma changeZoom_pan:
  "pan (changeZoom rnd iw ih delta st) =
     (rnd (rnd (iw / 2)
        - rnd (rnd (rnd (rnd (iw / 2) - fst (pan st)) / zoom st) * zoom (changeZoom rnd iw ih delta st))),
      rnd (rnd (ih / 2)
        - rnd (rnd (rnd (rnd (ih / 2) - snd (pan st)) / zoom st) * zoom (changeZoom rnd iw ih delta st))))"
  by (simp add: changeZoom_def Let_def)

lemma exact_zoom:
  "ctrlKey e \<or> metaKey e \<Longrightarrow>
     zoom (handleWheel (\<lambda>x. x) rect e st) =
       min (max 0.1 (zoom st + (if deltaY e > 0 then - 1 else 1) * 0.1)) 5"
  "zoom (changeZoom (\<lambda>x. x) iw ih delta st) = min (max 0.1 (zoom st + delta)) 5"
  by (simp_all add: handleWheel_def changeZoom_def Let_def)

lemma handleWheel_keeps_pointer:
  assumes "zoom st \<noteq> 0"
  shows "screenToWorld (Some rect) (handleWheel (\<lambda>x. x) rect e st) (wheel_clientX e) (wheel_clientY e)
       = screenToWorld (Some rect) st (wheel_clientX e) (wheel_clientY e)"
proof (cases "ctrlKey e \<or> metaKey e")
  case False
  then show ?thesis by (simp add: handleWheel_def)
next
  case True
  define nz where "nz = zoom (handleWheel (\<lambda>x. x) rect e st)"
  have nz: "nz \<noteq> 0"
    using exact_zoom(1) [OF True, of rect st] new_zoom_positive
    by (simp add: nz_def)
  have p: "pan (handleWheel (\<lambda>x. x) rect e st) =
       (wheel_clientX e - rect_left rect
          - (wheel_clientX e - rect_left rect - fst (pan st)) / zoom st * nz,
        wheel_clientY e - rect_top rect
          - (wheel_clientY e - rect_top rect - snd (pan st)) / zoom st * nz)"
    unfolding nz_def using handleWheel_pan [OF True, of "\<lambda>x. x" rect st]
    by (simp add: screenToWorld_rounded_def)
  show ?thesis
    by (rule point_eqI)
       (simp_all add: screenToWorld_def p nz_def [symmetric] nz assms)
qed

lemma changeZoom_keeps_center:
  assumes "zoom st \<noteq> 0"
  shows "screenToWorld (Some rect) (changeZoom (\<lambda>x. x) iw ih delta st)
           (iw / 2 + rect_left rect) (ih / 2 + rect_top rect)
       = screenToWorld (Some rect) st (iw / 2 + rect_left rect) (ih / 2 + rect_top rect)"
proof -
  define nz where "nz = zoom (changeZoom (\<lambda>x. x) iw ih delta st)"
  have nz: "nz \<noteq> 0"
    using exact_zoom(2) [of iw ih delta st] new_zoom_positive
    by (simp add: nz_def)
  have p: "pan (changeZoom (\<lambda>x. x) iw ih delta st) =
     (iw / 2 - (iw / 2 - fst (pan st)) / zoom st * nz,
      ih / 2 - (ih / 2 - snd (pan st)) / zoom st * nz)"
    unfolding nz_def using changeZoom_pan [of "\<lambda>x. x" iw ih delta st] by simp
  show ?thesis
    by (rule point_eqI) (simp_all add: screenToWorld_def p nz_def [symmetric] nz assms)
qed

lemma new_zoom_binary64_positive: "0 < min (max (binary64 (1 / 10)) z) 5"
  by (simp add: binary64_tenth)

lemma handleWheel_binary64_error:
  assumes "ctrlKey e \<or> metaKey e"
  shows "\<bar>pt_x (screenToWorld_rounded binary64 (Some rect) (handleWheel binary64 rect e st)
               (wheel_clientX e) (wheel_clientY e))
          - pt_x (screenToWorld_rounded binary64 (Some rect) st (wheel_clientX e) (wheel_clientY e))\<bar>
         \<le> (5 * \<bar>pt_x (screenToWorld_rounded binary64 (Some rect) st
                          (wheel_clientX e) (wheel_clientY e))\<bar>
             + 2 * \<bar>binary64 (wheel_clientX e - rect_left rect)\<bar>
                 / zoom (handleWheel binary64 rect e st)) / 2 ^ 53"
    and "\<bar>pt_y (screenToWorld_rounded binary64 (Some rect) (handleWheel binary64 rect e st)
               (wheel_clientX e) (wheel_clientY e))
          - pt_y (screenToWorld_rounded binary64 (Some rect) st (wheel_clientX e) (wheel_clientY e))\<bar>
         \<le> (5 * \<bar>pt_y (screenToWorld_rounded binary64 (Some rect) st
                          (wheel_clientX e) (wheel_clientY e))\<bar>
             + 2 * \<bar>binary64 (wheel_clientY e - rect_top rect)\<bar>
                 / zoom (handleWheel binary64 rect e st)) / 2 ^ 53"
proof -
  define nz where "nz = zoom (handleWheel binary64 rect e st)"
  have nz: "0 < nz"
    using assms new_zoom_binary64_positive by (simp add: nz_def handleWheel_def Let_def)
  note p = handleWheel_pan [OF assms, of binary64 rect st, folded nz_def]
  show "\<bar>pt_x (screenToWorld_rounded binary64 (Some rect) (handleWheel binary64 rect e st)
               (wheel_clientX e) (wheel_clientY e))
          - pt_x (screenToWorld_rounded binary64 (Some rect) st (wheel_clientX e) (wheel_clientY e))\<bar>
         \<le> (5 * \<bar>pt_x (screenToWorld_rounded binary64 (Some rect) st
                          (wheel_clientX e) (wheel_clientY e))\<bar>
             + 2 * \<bar>binary64 (wheel_clientX e - rect_left rect)\<bar>
                 / zoom (handleWheel binary64 rect e st)) / 2 ^ 53"
    using rezoom_error [OF nz, of "binary64 (wheel_clientX e - rect_left rect)"
        "pt_x (screenToWorld_rounded binary64 (Some rect) st (wheel_clientX e) (wheel_clientY e))"]
    by (simp add: screenToWorld_rounded_def p nz_def [symmetric])
  show "\<bar>pt_y (screenToWorld_rounded binary64 (Some rect) (handleWheel binary64 rect e st)
               (wheel_clientX e) (wheel_clientY e))
          - pt_y (screenToWorld_rounded binary64 (Some rect) st (wheel_clientX e) (wheel_clientY e))\<bar>
         \<le> (5 * \<bar>pt_y (screenToWorld_rounded binary64 (Some rect) st
                          (wheel_clientX e) (wheel_clientY e))\<bar>
             + 2 * \<bar>binary64 (wheel_clientY e - rect_top rect)\<bar>
                 / zoom (handleWheel binary64 rect e st)) / 2 ^ 53"
    using rezoom_error [OF nz, of "binary64 (wheel_clientY e - rect_top rect)"
        "pt_y (screenToWorld_rounded binary64 (Some rect) st (wheel_clientX e) (wheel_clientY e))"]
    by (simp add: screenToWorld_rounded_def p nz_def [symmetric])
qed

lemma changeZoom_binary64_error:
  assumes "binary64 (sx - rect_left rect) = binary64 (iw / 2)"
    and "binary64 (sy - rect_top rect) = binary64 (ih / 2)"
  shows "\<bar>pt_x (screenToWorld_rounded binary64 (Some rect) (changeZoom binary64 iw ih delta st) sx sy)
          - pt_x (screenToWorld_rounded binary64 (Some rect) st sx sy)\<bar>
         \<le> (5 * \<bar>pt_x (screenToWorld_rounded binary64 (Some rect) st sx sy)\<bar>
             + 2 * \<bar>binary64 (iw / 2)\<bar> / zoom (changeZoom binary64 iw ih delta st)) / 2 ^ 53"
    and "\<bar>pt_y (screenToWorld_rounded binary64 (Some rect) (changeZoom binary64 iw ih delta st) sx sy)
          - pt_y (screenToWorld_rounded binary64 (Some rect) st sx sy)\<bar>
         \<le> (5 * \<bar>pt_y (screenToWorld_rounded binary64 (Some rect) st sx sy)\<bar>
             + 2 * \<bar>binary64 (ih / 2)\<bar> / zoom (changeZoom binary64 iw ih delta st)) / 2 ^ 53"
proof -
  define nz where "nz = zoom (changeZoom binary64 iw ih delta st)"
  have nz: "0 < nz"
    using new_zoom_binary64_positive by (simp add: nz_def changeZoom_def Let_def)
  note p = changeZoom_pan [of binary64 iw ih delta st, folded nz_def]
  show "\<bar>pt_x (screenToWorld_rounded binary64 (Some rect) (changeZoom binary64 iw ih delta st) sx sy)
          - pt_x (screenToWorld_rounded binary64 (Some rect) st sx sy)\<bar>
         \<le> (5 * \<bar>pt_x (screenToWorld_rounded binary64 (Some rect) st sx sy)\<bar>
             + 2 * \<bar>binary64 (iw / 2)\<bar> / zoom (changeZoom binary64 iw ih delta st)) / 2 ^ 53"
    using rezoom_error [OF nz, of "binary64 (iw / 2)"
        "binary64 (binary64 (binary64 (iw / 2) - fst (pan st)) / zoom st)"]
    by (simp add: screenToWorld_rounded_def p nz_def [symmetric] assms)
  show "\<bar>pt_y (screenToWorld_rounded binary64 (Some rect) (changeZoom binary64 iw ih delta st) sx sy)
          - pt_y (screenToWorld_rounded binary64 (Some rect) st sx sy)\<bar>
         \<le> (5 * \<bar>pt_y (screenToWorld_rounded binary64 (Some rect) st sx sy)\<bar>
             + 2 * \<bar>binary64 (ih / 2)\<bar> / zoom (changeZoom binary64 iw ih delta st)) / 2 ^ 53"
    using rezoom_error [OF nz, of "binary64 (ih / 2)"
        "binary64 (binary64 (binary64 (ih / 2) - snd (pan st)) / zoom st)"]
    by (simp add: screenToWorld_rounded_def p nz_def [symmetric] assms)
qed

text \<open>
  C2 (as amended).  Whatever the rounding of the arithmetic, the doubles of the program
  included: the new pan of the wheel zoom is the pointer's position on the surface minus
  the product of the new zoom and the world point that \<open>screenToWorld\<close> gave for the
  pointer before the zoom; the new pan of the toolbar zoom is the position
  \<open>(innerWidth / 2, innerHeight / 2)\<close>, taken as a position on the surface, minus the
  product of the new zoom and the world point under that position.  From every pan and
  every zoom other than 0: where the arithmetic is exact, the world point under the
  pointer is the same after the wheel zoom as before, and so is, after the toolbar zoom,
  the world point under that position, which is the centre of the window when the
  surface's top-left is the origin of the screen; in doubles, as long as no intermediate
  result overflows or is subnormal, each coordinate of that world point moves by at most
  \<open>2\<^sup>-\<^sup>5\<^sup>3 * (5 * |world| + 2 * |position| / newZoom)\<close>, for the wheel zoom at the pointer
  and for the toolbar zoom at every screen point whose position on the surface is that of
  the toolbar's target.
\<close>

theorem zoom_keeps_target:
  "(ctrlKey e \<or> metaKey e \<longrightarrow>
      pan (handleWheel rnd rect e st) =
        (rnd (rnd (wheel_clientX e - rect_left rect)
           - rnd (pt_x (screenToWorld_rounded rnd (Some rect) st (wheel_clientX e) (wheel_clientY e))
                  * zoom (handleWheel rnd rect e st))),
         rnd (rnd (wheel_clientY e - rect_top rect)
           - rnd (pt_y (screenToWorld_rounded rnd (Some rect) st (wheel_clientX e) (wheel_clientY e))
                  * zoom (handleWheel rnd rect e st))))) \<and>
   pan (changeZoom rnd iw ih delta st) =
     (rnd (rnd (iw / 2)
        - rnd (rnd (rnd (rnd (iw / 2) - fst (pan st)) / zoom st) * zoom (changeZoom rnd iw ih delta st))),
      rnd (rnd (ih / 2)
        - rnd (rnd (rnd (rnd (ih / 2) - snd (pan st)) / zoom st) * zoom (changeZoom rnd iw ih delta st)))) \<and>
   (zoom st \<noteq> 0 \<longrightarrow>
      screenToWorld (Some rect) (handleWheel (\<lambda>x. x) rect e st) (wheel_clientX e) (wheel_clientY e)
        = screenToWorld (Some rect) st (wheel_clientX e) (wheel_clientY e) \<and>
      screenToWorld (Some rect) (changeZoom (\<lambda>x. x) iw ih delta st)
            (iw / 2 + rect_left rect) (ih / 2 + rect_top rect)
        = screenToWorld (Some rect) st (iw / 2 + rect_left rect) (ih / 2 + rect_top rect) \<and>
      (rect_left rect = 0 \<and> rect_top rect = 0 \<longrightarrow>
         screenToWorld (Some rect) (changeZoom (\<lambda>x. x) iw ih delta st) (iw / 2) (ih / 2)
           = screenToWorld (Some rect) st (iw / 2) (ih / 2)) \<and>
      (ctrlKey e \<or> metaKey e \<longrightarrow>
         \<bar>pt_x (screenToWorld_rounded binary64 (Some rect) (handleWheel binary64 rect e st)
                  (wheel_clientX e) (wheel_clientY e))
           - pt_x (screenToWorld_rounded binary64 (Some rect) st (wheel_clientX e) (wheel_clientY e))\<bar>
          \<le> (5 * \<bar>pt_x (screenToWorld_rounded binary64 (Some rect) st
                           (wheel_clientX e) (wheel_clientY e))\<bar>
              + 2 * \<bar>binary64 (wheel_clientX e - rect_left rect)\<bar>
                  / zoom (handleWheel binary64 rect e st)) / 2 ^ 53 \<and>
         \<bar>pt_y (screenToWorld_rounded binary64 (Some rect) (handleWheel binary64 rect e st)
                  (wheel_clientX e) (wheel_clientY e))
           - pt_y (screenToWorld_rounded binary64 (Some rect) st (wheel_clientX e) (wheel_clientY e))\<bar>
          \<le> (5 * \<bar>pt_y (screenToWorld_rounded binary64 (Some rect) st
                           (wheel_clientX e) (wheel_clientY e))\<bar>
              + 2 * \<bar>binary64 (wheel_clientY e - rect_top rect)\<bar>
                  / zoom (handleWheel binary64 rect e st)) / 2 ^ 53) \<and>
      (binary64 (sx - rect_left rect) = binary64 (iw / 2) \<and>
       binary64 (sy - rect_top rect) = binary64 (ih / 2) \<longrightarrow>
         \<bar>pt_x (screenToWorld_rounded binary64 (Some rect) (changeZoom binary64 iw ih delta st) sx sy)
           - pt_x (screenToWorld_rounded binary64 (Some rect) st sx sy)\<bar>
          \<le> (5 * \<bar>pt_x (screenToWorld_rounded binary64 (Some rect) st sx sy)\<bar>
              + 2 * \<bar>binary64 (iw / 2)\<bar> / zoom (changeZoom binary64 iw ih delta st)) / 2 ^ 53 \<and>
         \<bar>pt_y (screenToWorld_rounded binary64 (Some rect) (changeZoom binary64 iw ih delta st) sx sy)
           - pt_y (screenToWorld_rounded binary64 (Some rect) st sx sy)\<bar>
          \<le> (5 * \<bar>pt_y (screenToWorld_rounded binary64 (Some rect) st sx sy)\<bar>
              + 2 * \<bar>binary64 (ih / 2)\<bar> / zoom (changeZoom binary64 iw ih delta st)) / 2 ^ 53))"
proof -
  have c: "rect_left rect = 0 \<and> rect_top rect = 0 \<longrightarrow>
         screenToWorld (Some rect) (changeZoom (\<lambda>x. x) iw ih delta st) (iw / 2) (ih / 2)
           = screenToWorld (Some rect) st (iw / 2) (ih / 2)"
    if "zoom st \<noteq> 0"
    using changeZoom_keeps_center [OF that, of rect iw ih delta] by auto
  have exact: "zoom st \<noteq> 0 \<longrightarrow>
      screenToWorld (Some rect) (handleWheel (\<lambda>x. x) rect e st) (wheel_clientX e) (wheel_clientY e)
        = screenToWorld (Some rect) st (wheel_clientX e) (wheel_clientY e) \<and>
      screenToWorld (Some rect) (changeZoom (\<lambda>x. x) iw ih delta st)
            (iw / 2 + rect_left rect) (ih / 2 + rect_top rect)
        = screenToWorld (Some rect) st (iw / 2 + rect_left rect) (ih / 2 + rect_top rect) \<and>
      (rect_left rect = 0 \<and> rect_top rect = 0 \<longrightarrow>
         screenToWorld (Some rect) (changeZoom (\<lambda>x. x) iw ih delta st) (iw / 2) (ih / 2)
           = screenToWorld (Some rect) st (iw / 2) (ih / 2))"
    using handleWheel_keeps_pointer [of st rect e] changeZoom_keeps_center [of st rect iw ih delta] c
    by blast
  show ?thesis
    using handleWheel_pan [of e rnd rect st] changeZoom_pan [of rnd iw ih delta st] exact
      handleWheel_binary64_error [of e rect st]
      changeZoom_binary64_error [of sx rect iw sy ih delta st]
    by (intro conjI impI) blast+
qed

theorem zoom_keeps_target_witness:
  "zoom initialState \<noteq> 0 \<and>
   (ctrlKey zoom_in_at_15 \<or> metaKey zoom_in_at_15) \<and>
   rect_left screen_origin = 0 \<and> rect_top screen_origin = 0 \<and>
   binary64 (400 - rect_left screen_origin) = binary64 (800 / 2) \<and>
   binary64 (300 - rect_top screen_origin) = binary64 (600 / 2) \<and>
   screenToWorld (Some screen_origin) (handleWheel (\<lambda>x. x) screen_origin zoom_in_at_15 initialState)
       (wheel_clientX zoom_in_at_15) (wheel_clientY zoom_in_at_15)
     = screenToWorld (Some screen_origin) initialState
         (wheel_clientX zoom_in_at_15) (wheel_clientY zoom_in_at_15) \<and>
   screenToWorld (Some screen_origin) (changeZoom (\<lambda>x. x) 800 600 (1 / 10) initialState)
       (800 / 2) (600 / 2)
     = screenToWorld (Some screen_origin) initialState (800 / 2) (600 / 2) \<and>
   \<bar>pt_x (screenToWorld_rounded binary64 (Some screen_origin)
            (handleWheel binary64 screen_origin zoom_in_at_15 initialState)
            (wheel_clientX zoom_in_at_15) (wheel_clientY zoom_in_at_15))
     - pt_x (screenToWorld_rounded binary64 (Some screen_origin) initialState
               (wheel_clientX zoom_in_at_15) (wheel_clientY zoom_in_at_15))\<bar>
    \<le> (5 * \<bar>pt_x (screenToWorld_rounded binary64 (Some screen_origin) initialState
                     (wheel_clientX zoom_in_at_15) (wheel_clientY zoom_in_at_15))\<bar>
        + 2 * \<bar>binary64 (wheel_clientX zoom_in_at_15 - rect_left screen_origin)\<bar>
            / zoom (handleWheel binary64 screen_origin zoom_in_at_15 initialState)) / 2 ^ 53 \<and>
   \<bar>pt_x (screenToWorld_rounded binary64 (Some screen_origin)
            (changeZoom binary64 800 600 (1 / 10) initialState) 400 300)
     - pt_x (screenToWorld_rounded binary64 (Some screen_origin) initialState 400 300)\<bar>
    \<le> (5 * \<bar>pt_x (screenToWorld_rounded binary64 (Some screen_origin) initialState 400 300)\<bar>
        + 2 * \<bar>binary64 (800 / 2)\<bar> / zoom (changeZoom binary64 800 600 (1 / 10) initialState))
       / 2 ^ 53"
proof -
  have h: "zoom initialState \<noteq> 0" "ctrlKey zoom_in_at_15 \<or> metaKey zoom_in_at_15"
    "rect_left screen_origin = 0" "rect_top screen_origin = 0"
    "binary64 (400 - rect_left screen_origin) = binary64 (800 / 2)"
    "binary64 (300 - rect_top screen_origin) = binary64 (600 / 2)"
    by (simp_all add: initialState_def zoom_in_at_15_def screen_origin_def)
  show ?thesis
    using h zoom_keeps_target
          [where e = zoom_in_at_15 and rnd = binary64 and rect = screen_origin
             and st = initialState and iw = 800 and ih = 600 and delta = "1 / 10"
             and sx = 400 and sy = 300]
    by blast
qed

text \<open>
  In doubles the world point under the pointer is not kept exactly: from the initial
  state, a wheel zoom at \<open>clientX = 15\<close> moves it from 15 to
  \<open>15 - 2\<^sup>-\<^sup>4\<^sup>9 = 14.999999999999998\<close>.  And with the surface 100 to the right of the
  screen's origin, a toolbar zoom from 1 to 2 in a window of 800 by 600 moves the world
  point under the window's centre from 300 to 350.
\<close>

theorem zoom_keeps_target_counterexample:
  "pt_x (screenToWorld_rounded binary64 (Some screen_origin) initialState 15 0) = 15 \<and>
   pt_x (screenToWorld_rounded binary64 (Some screen_origin)
           (handleWheel binary64 screen_origin zoom_in_at_15 initialState) 15 0)
     = 8444249301319679 / 562949953421312 \<and>
   pt_x (screenToWorld_rounded binary64 (Some screen_origin)
           (handleWheel binary64 screen_origin zoom_in_at_15 initialState) 15 0)
     \<noteq> pt_x (screenToWorld_rounded binary64 (Some screen_origin) initialState 15 0) \<and>
   pt_x (screenToWorld_rounded binary64 (Some \<lparr>rect_left = 100, rect_top = 0\<rparr>) initialState 400 300)
     = 300 \<and>
   pt_x (screenToWorld_rounded binary64 (Some \<lparr>rect_left = 100, rect_top = 0\<rparr>)
           (changeZoom binary64 800 600 1 initialState) 400 300)
     = 350"
  by (simp add: screenToWorld_rounded_def screen_origin_def zoom_in_at_15_def handleWheel_def
        changeZoom_def initialState_def Let_def
        binary64_numeral binary64_tenth binary64_tenth_again binary64_new_zoom binary64_product
        binary64_halves binary64_quotient)

section \<open>Stroke resampling\<close>

text \<open>
  C3 (as amended).  \<open>getSplinePoints\<close> returns an input of fewer than three points
  unchanged.  For a longer input it keeps the first point, then for every index \<open>i\<close> from
  1 up to, not including, \<open>n - 2\<close> pushes the \<open>steps - 1\<close> interior interpolants of
  \<open>(p\<^sub>i, p\<^sub>i\<^sub>+\<^sub>1)\<close> at the ratios \<open>t / steps\<close>, where
  \<open>steps = \<lfloor>distance p\<^sub>i p\<^sub>i\<^sub>+\<^sub>1 / 2\<rfloor> + 1\<close>, followed by \<open>p\<^sub>i\<^sub>+\<^sub>1\<close> itself, and ends with the last point.
  The pressure of an interpolant is interpolated between the end points' pressures, where
  a missing pressure and a pressure of 0 both count as 0.5.  First and last point of the
  result are the first and last input point, pressure field included.  Being a function
  of its argument, the result is determined by the input.
\<close>

theorem getSplinePoints_resamples:
  "getSplinePoints pts = resample pressure_or_default pts \<and>
   (length pts < 3 \<longrightarrow> getSplinePoints pts = pts) \<and>
   (3 \<le> length pts \<longrightarrow>
      hd (getSplinePoints pts) = hd pts \<and> last (getSplinePoints pts) = last pts)"
  by (simp add: getSplinePoints_resample resample_def)

theorem getSplinePoints_resamples_witness:
  "getSplinePoints
      [\<lparr>pt_x = 0, pt_y = 0, pressure = None\<rparr>, \<lparr>pt_x = 1, pt_y = 0, pressure = Some 1\<rparr>]
    = [\<lparr>pt_x = 0, pt_y = 0, pressure = None\<rparr>, \<lparr>pt_x = 1, pt_y = 0, pressure = Some 1\<rparr>] \<and>
   getSplinePoints
      [\<lparr>pt_x = 7, pt_y = 7, pressure = None\<rparr>, \<lparr>pt_x = 0, pt_y = 0, pressure = Some 1\<rparr>,
       \<lparr>pt_x = 4, pt_y = 0, pressure = None\<rparr>, \<lparr>pt_x = 9, pt_y = 9, pressure = Some 0\<rparr>]
    = [\<lparr>pt_x = 7, pt_y = 7, pressure = None\<rparr>,
       \<lparr>pt_x = 4 / 3, pt_y = 0, pressure = Some (5 / 6)\<rparr>,
       \<lparr>pt_x = 8 / 3, pt_y = 0, pressure = Some (2 / 3)\<rparr>,
       \<lparr>pt_x = 4, pt_y = 0, pressure = None\<rparr>, \<lparr>pt_x = 9, pt_y = 9, pressure = Some 0\<rparr>]"
  using getSplinePoints_resamples
          [of "[\<lparr>pt_x = 0, pt_y = 0, pressure = None\<rparr>, \<lparr>pt_x = 1, pt_y = 0, pressure = Some 1\<rparr>]"]
        getSplinePoints_resamples
          [of "[\<lparr>pt_x = 7, pt_y = 7, pressure = None\<rparr>, \<lparr>pt_x = 0, pt_y = 0, pressure = Some 1\<rparr>,
                \<lparr>pt_x = 4, pt_y = 0, pressure = None\<rparr>, \<lparr>pt_x = 9, pt_y = 9, pressure = Some 0\<rparr>]"]
  by (simp add: resample_def interpolants_def steps_between_axis upt_rec interpolated_def
        pressure_or_default_def)

text \<open>
  The claim reads only a missing pressure as 0.5.  A stroke whose second point reports the
  pressure 0 is resampled differently: the code starts the interpolation at 0.5.
\<close>

theorem getSplinePoints_zero_pressure_counterexample:
  "getSplinePoints
      [\<lparr>pt_x = 7, pt_y = 7, pressure = None\<rparr>, \<lparr>pt_x = 0, pt_y = 0, pressure = Some 0\<rparr>,
       \<lparr>pt_x = 4, pt_y = 0, pressure = Some 1\<rparr>, \<lparr>pt_x = 9, pt_y = 9, pressure = None\<rparr>]
    \<noteq> resample pressure_missing_default
      [\<lparr>pt_x = 7, pt_y = 7, pressure = None\<rparr>, \<lparr>pt_x = 0, pt_y = 0, pressure = Some 0\<rparr>,
       \<lparr>pt_x = 4, pt_y = 0, pressure = Some 1\<rparr>, \<lparr>pt_x = 9, pt_y = 9, pressure = None\<rparr>] \<and>
   getSplinePoints
      [\<lparr>pt_x = 7, pt_y = 7, pressure = None\<rparr>, \<lparr>pt_x = 0, pt_y = 0, pressure = Some 0\<rparr>,
       \<lparr>pt_x = 4, pt_y = 0, pressure = Some 1\<rparr>, \<lparr>pt_x = 9, pt_y = 9, pressure = None\<rparr>]
    = [\<lparr>pt_x = 7, pt_y = 7, pressure = None\<rparr>,
       \<lparr>pt_x = 4 / 3, pt_y = 0, pressure = Some (2 / 3)\<rparr>,
       \<lparr>pt_x = 8 / 3, pt_y = 0, pressure = Some (5 / 6)\<rparr>,
       \<lparr>pt_x = 4, pt_y = 0, pressure = Some 1\<rparr>, \<lparr>pt_x = 9, pt_y = 9, pressure = None\<rparr>] \<and>
   resample pressure_missing_default
      [\<lparr>pt_x = 7, pt_y = 7, pressure = None\<rparr>, \<lparr>pt_x = 0, pt_y = 0, pressure = Some 0\<rparr>,
       \<lparr>pt_x = 4, pt_y = 0, pressure = Some 1\<rparr>, \<lparr>pt_x = 9, pt_y = 9, pressure = None\<rparr>]
    = [\<lparr>pt_x = 7, pt_y = 7, pressure = None\<rparr>,
       \<lparr>pt_x = 4 / 3, pt_y = 0, pressure = Some (1 / 3)\<rparr>,
       \<lparr>pt_x = 8 / 3, pt_y = 0, pressure = Some (2 / 3)\<rparr>,
       \<lparr>pt_x = 4, pt_y = 0, pressure = Some 1\<rparr>, \<lparr>pt_x = 9, pt_y = 9, pressure = None\<rparr>]"
  by (simp add: getSplinePoints_resample resample_def interpolants_def steps_between_axis upt_rec
        interpolated_def pressure_or_default_def pressure_missing_default_def)

section \<open>History manager: commit, undo, redo\<close>

lemma saveHistory_fields:
  "elements (saveHistory n st) = n"
  "history (saveHistory n st) =
     (let h = take (historyStep st + 1) (history st) @ [n] in if length h > 50 then tl h else h)"
  "historyStep (saveHistory n st) = length (history (saveHistory n st)) - 1"
  "layers (saveHistory n st) = layers st"
  "activeLayerId (saveHistory n st) = activeLayerId st"
  by (simp_all add: saveHistory_def Let_def)

lemma saveHistory_history:
  "history (saveHistory n st) =
     (if length (take (historyStep st + 1) (history st) @ [n]) > 50
      then tl (take (historyStep st + 1) (history st) @ [n])
      else take (historyStep st + 1) (history st) @ [n])"
  by (simp add: saveHistory_def Let_def)

lemma saveHistory_snoc:
  "\<exists>X. history (saveHistory n st) = X @ [n] \<and> historyStep (saveHistory n st) = length X"
proof -
  define p where "p = take (historyStep st + 1) (history st)"
  have hist: "history (saveHistory n st) =
      (if length (p @ [n]) > 50 then tl (p @ [n]) else p @ [n])"
    unfolding p_def by (rule saveHistory_history)
  have step: "historyStep (saveHistory n st) = length (history (saveHistory n st)) - 1"
    by (rule saveHistory_fields(3))
  show ?thesis
  proof (cases "length (p @ [n]) > 50")
    case True
    then have "p \<noteq> []" by auto
    then have "tl (p @ [n]) = tl p @ [n]" by simp
    then show ?thesis
      using True hist step by simp
  next
    case False
    then show ?thesis
      using hist step by simp
  qed
qed

lemma saveHistory_twice_snoc:
  "\<exists>X. history (saveHistory B (saveHistory A st)) = X @ [A, B] \<and>
       historyStep (saveHistory B (saveHistory A st)) = length X + 1"
proof -
  obtain Y where Y: "history (saveHistory A st) = Y @ [A]"
      "historyStep (saveHistory A st) = length Y"
    using saveHistory_snoc by blast
  have hist: "history (saveHistory B (saveHistory A st)) =
      (if length (Y @ [A, B]) > 50 then tl (Y @ [A, B]) else Y @ [A, B])"
    using Y by (simp add: saveHistory_history)
  have step: "historyStep (saveHistory B (saveHistory A st)) =
      length (history (saveHistory B (saveHistory A st))) - 1"
    by (rule saveHistory_fields(3))
  show ?thesis
  proof (cases "length (Y @ [A, B]) > 50")
    case True
    then have "Y \<noteq> []" by auto
    then have "tl (Y @ [A, B]) = tl Y @ [A, B]" by simp
    then show ?thesis
      using True hist step by simp
  next
    case False
    then show ?thesis
      using hist step by simp
  qed
qed

lemma undo_redo_after_commits:
  "\<exists>u. undo (saveHistory B (saveHistory A st)) = Some u \<and> elements u = A \<and>
       redo u = Some (saveHistory B (saveHistory A st))"
proof -
  define s2 where "s2 = saveHistory B (saveHistory A st)"
  obtain X where X: "history s2 = X @ [A, B]" "historyStep s2 = length X + 1"
    unfolding s2_def using saveHistory_twice_snoc by blast
  have el: "elements s2 = B"
    by (simp add: s2_def saveHistory_fields(1))
  define u where "u = s2\<lparr>historyStep := length X, elements := A\<rparr>"
  have "undo s2 = Some u"
    using X by (simp add: undo_def js_index_def u_def nth_append)
  moreover have "redo u = Some s2"
    using X el by (simp add: redo_def js_index_def u_def nth_append)
  moreover have "elements u = A"
    by (simp add: u_def)
  ultimately show ?thesis
    unfolding s2_def by blast
qed

lemma drop_drop_append:
  "drop (length (drop (length p - c) p @ xs) - c) (drop (length p - c) p @ xs) =
   drop (length (p @ xs) - c) (p @ xs)"
proof (cases "length p \<le> c")
  case True
  then show ?thesis by simp
next
  case False
  then have "length (drop (length p - c) p) = c" by simp
  then have "length (drop (length p - c) p @ xs) - c = length xs"
    by (simp del: length_drop)
  moreover have "length (p @ xs) - c = length xs + (length p - c)"
    using False by simp
  ultimately show ?thesis
    by (simp only: drop_append drop_drop) simp
qed

lemma saveHistory_bounded:
  assumes "length (history st) \<le> 50"
  shows "history (saveHistory n st) =
           drop (length (take (historyStep st + 1) (history st) @ [n]) - 50)
             (take (historyStep st + 1) (history st) @ [n])"
    and "length (history (saveHistory n st)) \<le> 50"
    and "history (saveHistory n st) \<noteq> []"
proof -
  define p where "p = take (historyStep st + 1) (history st)"
  have hist: "history (saveHistory n st) =
      (if length (p @ [n]) > 50 then tl (p @ [n]) else p @ [n])"
    unfolding p_def by (rule saveHistory_history)
  have len: "length p \<le> 50"
    using assms by (simp add: p_def)
  have "history (saveHistory n st) = drop (length (p @ [n]) - 50) (p @ [n])"
  proof (cases "length p = 50")
    case True
    then have "length (p @ [n]) - 50 = Suc 0" and big: "50 < length (p @ [n])"
      by simp_all
    then have "drop (length (p @ [n]) - 50) (p @ [n]) = tl (p @ [n])"
      by (simp only: drop_Suc drop_0)
    then show ?thesis
      using hist big by (simp only: if_True)
  next
    case False
    with len have "length p < 50" by simp
    then show ?thesis
      using hist by simp
  qed
  then show "history (saveHistory n st) =
           drop (length (take (historyStep st + 1) (history st) @ [n]) - 50)
             (take (historyStep st + 1) (history st) @ [n])"
    by (simp only: p_def)
  show "length (history (saveHistory n st)) \<le> 50"
    using len hist by simp
  show "history (saveHistory n st) \<noteq> []"
    using saveHistory_snoc [of n st] by auto
qed

lemma commits_bounded:
  "xs \<noteq> [] \<Longrightarrow> length (history st) \<le> 50 \<Longrightarrow>
     history (commits xs st) =
       drop (length (take (historyStep st + 1) (history st) @ xs) - 50)
         (take (historyStep st + 1) (history st) @ xs) \<and>
     historyStep (commits xs st) = length (history (commits xs st)) - 1 \<and>
     elements (commits xs st) = last xs"
proof (induction xs arbitrary: st)
  case Nil
  then show ?case by simp
next
  case (Cons x xs)
  define q where "q = take (historyStep st + 1) (history st)"
  define s' where "s' = saveHistory x st"
  have h': "history s' = drop (length (q @ [x]) - 50) (q @ [x])"
    and len': "length (history s') \<le> 50" and ne: "history s' \<noteq> []"
    unfolding s'_def q_def using saveHistory_bounded [OF Cons.prems(2), of x] by blast+
  have step': "historyStep s' = length (history s') - 1"
    unfolding s'_def by (rule saveHistory_fields(3))
  have el': "elements s' = x"
    unfolding s'_def by (rule saveHistory_fields(1))
  have comm: "commits (x # xs) st = commits xs s'"
    by (simp add: s'_def)
  show ?case
  proof (cases "xs = []")
    case True
    then show ?thesis
      unfolding comm q_def [symmetric] using h' step' el' by simp
  next
    case False
    have tk: "take (historyStep s' + 1) (history s') = history s'"
      using ne step' by simp
    note IH = Cons.IH [OF False len', unfolded tk]
    have "drop (length (history s' @ xs) - 50) (history s' @ xs) =
          drop (length ((q @ [x]) @ xs) - 50) ((q @ [x]) @ xs)"
      unfolding h' by (rule drop_drop_append)
    then show ?thesis
      unfolding comm q_def [symmetric] using IH False by simp
  qed
qed


lemma undo_at_zero: "historyStep st = 0 \<Longrightarrow> undo st = Some st"
  by (simp add: undo_def)

lemma redo_at_tail: "historyStep st + 1 = length (history st) \<Longrightarrow> redo st = Some st"
  by (simp add: redo_def)

text \<open>
  C4.  After \<open>commit(A)\<close> and then \<open>commit(B)\<close>, \<open>undo\<close> succeeds and makes the live
  element list \<open>A\<close>, and \<open>redo\<close> after it succeeds and makes it \<open>B\<close>, from every
  state.  \<open>undo\<close> with the cursor at 0 and \<open>redo\<close> with the cursor on the last entry
  return the state as it was, every component included.
\<close>

theorem undo_redo_history:
  "(\<exists>u. undo (saveHistory B (saveHistory A st)) = Some u \<and> elements u = A \<and>
        (\<exists>r. redo u = Some r \<and> elements r = B)) \<and>
   (historyStep st = 0 \<longrightarrow> undo st = Some st) \<and>
   (historyStep st + 1 = length (history st) \<longrightarrow> redo st = Some st)"
proof -
  obtain u where u: "undo (saveHistory B (saveHistory A st)) = Some u" "elements u = A"
      "redo u = Some (saveHistory B (saveHistory A st))"
    using undo_redo_after_commits by blast
  have "elements (saveHistory B (saveHistory A st)) = B"
    by (rule saveHistory_fields(1))
  with u show ?thesis
    using undo_at_zero redo_at_tail by blast
qed

theorem undo_redo_history_witness:
  "historyStep initialState = 0 \<and> undo initialState = Some initialState \<and>
   historyStep initialState + 1 = length (history initialState) \<and>
   redo initialState = Some initialState \<and>
   (\<exists>u. undo (saveHistory [] (saveHistory [sample_shape Rectangle []] initialState)) = Some u \<and> elements u = [sample_shape Rectangle []] \<and>
        (\<exists>r. redo u = Some r \<and> elements r = []))"
  using undo_redo_history [of "[]" "[sample_shape Rectangle []]" initialState]
  by (simp add: initialState_def)

text \<open>
  C5.  \<open>commit\<close> keeps the entries up to the cursor, drops the redo tail behind it,
  appends the new snapshot, drops the oldest entry when that makes more than 50, and
  leaves the cursor on the last entry, which is the new snapshot.  A history of at most
  50 entries stays so, and 60 commits onto it leave exactly the last 50 of the committed
  snapshots, the first 10 gone, with the cursor on the 50th; the state the application
  starts from, whose history is the one empty snapshot, is such a history.
\<close>

theorem saveHistory_capacity:
  "history (saveHistory n st) =
     (if length (take (historyStep st + 1) (history st) @ [n]) > 50
      then tl (take (historyStep st + 1) (history st) @ [n])
      else take (historyStep st + 1) (history st) @ [n]) \<and>
   historyStep (saveHistory n st) + 1 = length (history (saveHistory n st)) \<and>
   last (history (saveHistory n st)) = n \<and>
   elements (saveHistory n st) = n \<and>
   (length (history st) \<le> 50 \<longrightarrow>
      length (history (saveHistory n st)) \<le> 50 \<and>
      (length snaps = 60 \<longrightarrow>
         history (commits snaps st) = drop 10 snaps \<and>
         length (history (commits snaps st)) = 50 \<and>
         historyStep (commits snaps st) = 49 \<and>
         elements (commits snaps st) = last snaps))"
proof -
  obtain X where X: "history (saveHistory n st) = X @ [n]"
      "historyStep (saveHistory n st) = length X"
    using saveHistory_snoc by blast
  have one: "historyStep (saveHistory n st) + 1 = length (history (saveHistory n st))"
      "last (history (saveHistory n st)) = n"
    using X by simp_all
  have many: "history (commits snaps st) = drop 10 snaps \<and>
         length (history (commits snaps st)) = 50 \<and>
         historyStep (commits snaps st) = 49 \<and>
         elements (commits snaps st) = last snaps"
    if le: "length (history st) \<le> 50" and sixty: "length snaps = 60"
  proof -
    define q where "q = take (historyStep st + 1) (history st)"
    have "snaps \<noteq> []" using sixty by auto
    note cb = commits_bounded [OF this le, unfolded q_def [symmetric]]
    have "drop (length (q @ snaps) - 50) (q @ snaps) = drop 10 snaps"
      using sixty by simp
    then have h: "history (commits snaps st) = drop 10 snaps"
      using cb by (simp only:)
    then have len: "length (history (commits snaps st)) = 50"
      using sixty by simp
    have "historyStep (commits snaps st) = length (history (commits snaps st)) - 1"
      using cb by blast
    then have step: "historyStep (commits snaps st) = 49"
      using len by simp
    have "elements (commits snaps st) = last snaps"
      using cb by blast
    then show ?thesis
      using h len step by blast
  qed
  show ?thesis
    using one many saveHistory_bounded(2) [of st n]
    by (simp add: saveHistory_history saveHistory_fields(1))
qed

theorem saveHistory_capacity_witness:
  "length (history initialState) \<le> 50 \<and>
   length (map (\<lambda>k. replicate k (sample_shape Rectangle [])) [0..<60]) = 60 \<and>
   history (commits (map (\<lambda>k. replicate k (sample_shape Rectangle [])) [0..<60]) initialState)
     = drop 10 (map (\<lambda>k. replicate k (sample_shape Rectangle [])) [0..<60]) \<and>
   historyStep (commits (map (\<lambda>k. replicate k (sample_shape Rectangle [])) [0..<60]) initialState) = 49 \<and>
   history (saveHistory [sample_shape Rectangle []] initialState) = [[], [sample_shape Rectangle []]]"
  using saveHistory_capacity [of "[sample_shape Rectangle []]" initialState "map (\<lambda>k. replicate k (sample_shape Rectangle [])) [0..<60]"]
  by (simp add: initialState_def del: upt_Suc replicate.simps)

section \<open>Gestures on a locked or missing layer\<close>

lemma handlePointerDown_rejects:
  assumes "\<forall>l. getActiveLayer (state a) = Some l \<longrightarrow> locked l"
  shows "state (handlePointerDown canvas newId e a) = state a"
    and "selectedTool (state a) \<noteq> ToolMove \<Longrightarrow> handlePointerDown canvas newId e a = a"
  using assms by (auto simp add: handlePointerDown_def Let_def split: option.splits)

lemma handlePointerUp_rejects:
  assumes "\<forall>l. getActiveLayer (state a) = Some l \<longrightarrow> locked l"
  shows "state (handlePointerUp canvas newId e a) = state a"
  using assms by (auto simp add: handlePointerUp_def Let_def split: option.splits)

text \<open>
  C7 (as amended).  When the active layer id names no layer, or names a locked one, a
  pointer-down leaves the application state as it was and, for every tool but the pan
  tool, starts no gesture at all; a pointer-up checks again and leaves the application
  state as it was, whatever gesture is in progress: no element is created and no
  history entry is added.  The visibility of the layer is not looked at.
\<close>

theorem locked_or_missing_layer_rejects:
  "\<forall>l. getActiveLayer (state a) = Some l \<longrightarrow> locked l \<Longrightarrow>
     state (handlePointerDown canvas newId e a) = state a \<and>
     (selectedTool (state a) \<noteq> ToolMove \<longrightarrow> handlePointerDown canvas newId e a = a) \<and>
     state (handlePointerUp canvas newId e a) = state a"
  using handlePointerDown_rejects handlePointerUp_rejects by blast

theorem locked_or_missing_layer_rejects_witness:
  "getActiveLayer (withLayer (sample_layer True True) ToolPen) = Some (sample_layer True True) \<and>
   locked (sample_layer True True) \<and>
   handlePointerDown origin_rect ''n'' (pointer_at 3 4)
       (gesture (withLayer (sample_layer True True) ToolPen) False [])
     = gesture (withLayer (sample_layer True True) ToolPen) False [] \<and>
   state (handlePointerUp origin_rect ''n'' (pointer_at 3 4)
       (gesture (withLayer (sample_layer True True) ToolPen) True []))
     = withLayer (sample_layer True True) ToolPen \<and>
   getActiveLayer (initialState\<lparr>activeLayerId := []\<rparr>) = None \<and>
   handlePointerDown origin_rect ''n'' (pointer_at 3 4)
       (gesture (initialState\<lparr>activeLayerId := []\<rparr>) False [])
     = gesture (initialState\<lparr>activeLayerId := []\<rparr>) False [] \<and>
   state (handlePointerUp origin_rect ''n'' (pointer_at 3 4)
       (gesture (initialState\<lparr>activeLayerId := []\<rparr>) True []))
     = initialState\<lparr>activeLayerId := []\<rparr>"
  using locked_or_missing_layer_rejects
          [of "gesture (withLayer (sample_layer True True) ToolPen) False []"
              origin_rect "''n''" "pointer_at 3 4"]
        locked_or_missing_layer_rejects
          [of "gesture (withLayer (sample_layer True True) ToolPen) True []"
              origin_rect "''n''" "pointer_at 3 4"]
        locked_or_missing_layer_rejects
          [of "gesture (initialState\<lparr>activeLayerId := []\<rparr>) False []"
              origin_rect "''n''" "pointer_at 3 4"]
        locked_or_missing_layer_rejects
          [of "gesture (initialState\<lparr>activeLayerId := []\<rparr>) True []"
              origin_rect "''n''" "pointer_at 3 4"]
  by (simp add: gesture_def withLayer_def sample_layer_def initialState_def getActiveLayer_def)

text \<open>
  On an active layer that is hidden but not locked, a pen gesture (pointer-down, then
  pointer-up) creates a stroke and a second history entry.
\<close>

theorem invisible_layer_counterexample:
  "getActiveLayer (withLayer (sample_layer False False) ToolPen) = Some (sample_layer False False) \<and>
   \<not> visible (sample_layer False False) \<and>
   elements (withLayer (sample_layer False False) ToolPen) = [] \<and>
   history (withLayer (sample_layer False False) ToolPen) = [[]] \<and>
   elements (state
     (handlePointerUp origin_rect ''n'' (pointer_at 3 4)
        (handlePointerDown origin_rect ''n'' (pointer_at 3 4)
           (gesture (withLayer (sample_layer False False) ToolPen) False []))))
     = [sample_stroke ''a'' (Some [\<lparr>pt_x = 3, pt_y = 4, pressure = Some 1\<rparr>])\<lparr>el_id := ''n''\<rparr>] \<and>
   history (state
     (handlePointerUp origin_rect ''n'' (pointer_at 3 4)
        (handlePointerDown origin_rect ''n'' (pointer_at 3 4)
           (gesture (withLayer (sample_layer False False) ToolPen) False []))))
     = [[], [sample_stroke ''a'' (Some [\<lparr>pt_x = 3, pt_y = 4, pressure = Some 1\<rparr>])\<lparr>el_id := ''n''\<rparr>]]"
  by (simp add: gesture_def withLayer_def sample_layer_def initialState_def getActiveLayer_def
        origin_rect_def pointer_at_def sample_stroke_def sample_style_def
        handlePointerDown_def handlePointerUp_def getPointerPos_def screenToWorld_def
        getSplinePoints_def saveHistory_def Let_def)

text \<open>
  The submission of an open text box does not look at the layer: on a layer locked after
  the box was opened it still commits the text.
\<close>

lemma handleTextSubmit_ignores_lock:
  "getActiveLayer (withLayer (sample_layer True True) ToolText) = Some (sample_layer True True) \<and>
   locked (sample_layer True True) \<and>
   map layerId (elements (state (handleTextSubmit ''n''
      ((gesture (withLayer (sample_layer True True) ToolText) False [])
         \<lparr>textInput := Some \<lparr>ti_x = 1, ti_y = 2, ti_value = [104, 105]\<rparr>\<rparr>)))) = [''a''] \<and>
   length (history (state (handleTextSubmit ''n''
      ((gesture (withLayer (sample_layer True True) ToolText) False [])
         \<lparr>textInput := Some \<lparr>ti_x = 1, ti_y = 2, ti_value = [104, 105]\<rparr>\<rparr>)))) = 2"
  by (simp add: handleTextSubmit_def gesture_def withLayer_def sample_layer_def initialState_def
        getActiveLayer_def trim_nonempty_def js_whitespace_def saveHistory_def Let_def)

section \<open>The eraser gesture and the history\<close>

lemma handlePointerUp_eraser:
  assumes "isDrawing a" "selectedTool (state a) = ToolEraser"
    "getActiveLayer (state a) = Some layer" "\<not> locked layer"
  shows "handlePointerUp canvas newId e a =
           a\<lparr>isDrawing := False, lastPointerPos := None,
             state := saveHistory (elements (state a)) (state a),
             currentPoints := [], dragStart := None\<rparr>"
  using assms by (simp add: handlePointerUp_def Let_def shapeOfTool_def)

lemma handlePointerUp_idle: "\<not> isDrawing a \<Longrightarrow> handlePointerUp canvas newId e a = a"
  by (simp add: handlePointerUp_def)

lemma handlePointerMove_history:
  "history (state (handlePointerMove canvas e a)) = history (state a) \<and>
   historyStep (state (handlePointerMove canvas e a)) = historyStep (state a)"
  by (simp add: handlePointerMove_def Let_def)

text \<open>
  C10.  A pointer-up that ends a gesture of the eraser tool on an existing, unlocked
  active layer commits the current element list: the application state becomes
  \<open>saveHistory (elements st) st\<close>.  The elements stay as they are, the history is cut
  behind the cursor and gets the elements as a further snapshot, whether or not that
  repeats the entry before it, the oldest entry leaving beyond 50, and the cursor ends on
  the new last entry; below the capacity the cursor is one higher than before.  A
  further pointer-up commits nothing more, and a pointer-move of the gesture leaves the
  history alone.
\<close>

theorem eraser_gesture_commits:
  "isDrawing a \<Longrightarrow> selectedTool (state a) = ToolEraser \<Longrightarrow>
   getActiveLayer (state a) = Some layer \<Longrightarrow> \<not> locked layer \<Longrightarrow>
     state (handlePointerUp canvas newId e a) = saveHistory (elements (state a)) (state a) \<and>
     elements (state (handlePointerUp canvas newId e a)) = elements (state a) \<and>
     history (state (handlePointerUp canvas newId e a)) =
       (if length (take (historyStep (state a) + 1) (history (state a)) @ [elements (state a)]) > 50
        then tl (take (historyStep (state a) + 1) (history (state a)) @ [elements (state a)])
        else take (historyStep (state a) + 1) (history (state a)) @ [elements (state a)]) \<and>
     historyStep (state (handlePointerUp canvas newId e a)) + 1 =
       length (history (state (handlePointerUp canvas newId e a))) \<and>
     (historyStep (state a) < length (history (state a)) \<and> historyStep (state a) + 1 < 50 \<longrightarrow>
        historyStep (state (handlePointerUp canvas newId e a)) = historyStep (state a) + 1 \<and>
        history (state (handlePointerUp canvas newId e a)) =
          take (historyStep (state a) + 1) (history (state a)) @ [elements (state a)]) \<and>
     handlePointerUp canvas newId' e' (handlePointerUp canvas newId e a) =
       handlePointerUp canvas newId e a \<and>
     history (state (handlePointerMove canvas e a)) = history (state a)"
proof -
  assume h: "isDrawing a" "selectedTool (state a) = ToolEraser"
    "getActiveLayer (state a) = Some layer" "\<not> locked layer"
  define st where "st = state a"
  have up: "state (handlePointerUp canvas newId e a) = saveHistory (elements st) st"
    and idle: "\<not> isDrawing (handlePointerUp canvas newId e a)"
    unfolding st_def by (simp_all add: handlePointerUp_eraser [OF h])
  obtain X where X: "history (saveHistory (elements st) st) = X @ [elements st]"
      "historyStep (saveHistory (elements st) st) = length X"
    using saveHistory_snoc by blast
  have tail: "historyStep (saveHistory (elements st) st) + 1 =
      length (history (saveHistory (elements st) st))"
    using X by simp
  have adv: "historyStep (saveHistory (elements st) st) = historyStep st + 1 \<and>
        history (saveHistory (elements st) st) =
          take (historyStep st + 1) (history st) @ [elements st]"
    if "historyStep st < length (history st)" "historyStep st + 1 < 50"
  proof -
    have "length (take (historyStep st + 1) (history st)) = historyStep st + 1"
      using that by simp
    then show ?thesis
      using that by (simp add: saveHistory_history saveHistory_fields(3))
  qed
  show ?thesis
    unfolding st_def [symmetric] up
    using tail adv handlePointerUp_idle [OF idle] handlePointerMove_history [of canvas e a]
    by (simp add: saveHistory_history saveHistory_fields(1) st_def)
qed

theorem eraser_gesture_commits_witness:
  "isDrawing (gesture (withLayer (sample_layer True False) ToolEraser) True []) \<and>
   getActiveLayer (withLayer (sample_layer True False) ToolEraser) = Some (sample_layer True False) \<and>
   \<not> locked (sample_layer True False) \<and>
   elements (state (handlePointerUp origin_rect ''n'' (pointer_at 3 4)
      (gesture (withLayer (sample_layer True False) ToolEraser) True []))) = [] \<and>
   history (state (handlePointerUp origin_rect ''n'' (pointer_at 3 4)
      (gesture (withLayer (sample_layer True False) ToolEraser) True []))) = [[], []] \<and>
   historyStep (state (handlePointerUp origin_rect ''n'' (pointer_at 3 4)
      (gesture (withLayer (sample_layer True False) ToolEraser) True []))) = 1"
  using eraser_gesture_commits
          [of "gesture (withLayer (sample_layer True False) ToolEraser) True []"
              "sample_layer True False" origin_rect "''n''" "pointer_at 3 4" "''n''" "pointer_at 3 4"]
  by (simp add: gesture_def withLayer_def sample_layer_def initialState_def getActiveLayer_def
        saveHistory_def Let_def)

section \<open>Eraser hit testing\<close>

lemma filter_same_length: "length (filter P xs) = length xs \<Longrightarrow> filter P xs = xs"
  by (metis filter_True length_filter_less less_irrefl filter_id_conv)

lemma handlePointerMove_eraser:
  assumes "isDrawing a" "selectedTool (state a) = ToolEraser"
  shows "elements (state (handlePointerMove canvas e a)) =
           filter (eraserKeep (state a) (getPointerPos canvas (state a) e)) (elements (state a))"
  using assms
  by (auto simp add: handlePointerMove_def Let_def dest: filter_same_length)

lemma eraserKeep_other_layer: "layerId el \<noteq> activeLayerId st \<Longrightarrow> eraserKeep st pos el"
  by (simp add: eraserKeep_def)

lemma eraserKeep_stroke:
  "layerId el = activeLayerId st \<Longrightarrow> el_type el = Stroke \<Longrightarrow> points el = Some ps \<Longrightarrow>
     \<not> eraserKeep st pos el \<longleftrightarrow> (\<exists>p \<in> set ps. distance p pos < currentSize st * 2)"
  by (simp add: eraserKeep_def distance_def list_ex_iff)

lemma eraserKeep_shape:
  "layerId el = activeLayerId st \<Longrightarrow> el_type el = Rectangle \<or> el_type el = Circle \<Longrightarrow>
   el_x el = Some x \<Longrightarrow> el_y el = Some y \<Longrightarrow> width el = Some w \<Longrightarrow> height el = Some h \<Longrightarrow>
     \<not> eraserKeep st pos el \<longleftrightarrow>
       distance \<lparr>pt_x = x + w / 2, pt_y = y + h / 2, pressure = None\<rparr> pos
         \<le> max \<bar>w\<bar> \<bar>h\<bar> / 2 + currentSize st * 2"
  by (auto simp add: eraserKeep_def distance_def Let_def not_less)

lemma eraserKeep_line:
  "layerId el = activeLayerId st \<Longrightarrow> el_type el = Line \<Longrightarrow>
   el_x el = Some x \<Longrightarrow> el_y el = Some y \<Longrightarrow> width el = Some w \<Longrightarrow> height el = Some h \<Longrightarrow>
     \<not> eraserKeep st pos el \<longleftrightarrow>
       distanceToSegment pos \<lparr>pt_x = x, pt_y = y, pressure = None\<rparr>
                             \<lparr>pt_x = x + w, pt_y = y + h, pressure = None\<rparr>
         \<le> max 5 (currentSize st) + 5"
  by (simp add: eraserKeep_def Let_def not_less)

lemma eraserKeep_text:
  "layerId el = activeLayerId st \<Longrightarrow> el_type el = Text \<Longrightarrow>
   el_x el = Some x \<Longrightarrow> el_y el = Some y \<Longrightarrow>
     \<not> eraserKeep st pos el \<longleftrightarrow>
       distance \<lparr>pt_x = x, pt_y = y, pressure = None\<rparr> pos \<le> 20"
  by (simp add: eraserKeep_def distance_def Let_def not_less)

lemma eraserKeep_unpopulated:
  "(el_type el = Stroke \<and> points el = None) \<or>
   (el_type el \<noteq> Stroke \<and> el_x el = None) \<or>
   (el_type el = Line \<and> (width el = None \<or> height el = None)) \<Longrightarrow>
     eraserKeep st pos el"
  by (cases "el_type el") (auto simp add: eraserKeep_def)

lemma eraserKeep_shape_missing:
  "layerId el = activeLayerId st \<Longrightarrow> el_type el = Rectangle \<or> el_type el = Circle \<Longrightarrow>
   el_x el \<noteq> None \<Longrightarrow> el_y el = None \<or> width el = None \<or> height el = None \<Longrightarrow>
     \<not> eraserKeep st pos el"
  by (auto simp add: eraserKeep_def split: option.splits)

lemma eraserKeep_line_missing:
  "layerId el = activeLayerId st \<Longrightarrow> el_type el = Line \<Longrightarrow>
   el_x el \<noteq> None \<Longrightarrow> width el \<noteq> None \<Longrightarrow> height el \<noteq> None \<Longrightarrow> el_y el = None \<Longrightarrow>
     \<not> eraserKeep st pos el"
  by (auto simp add: eraserKeep_def split: option.splits)

lemma eraserKeep_text_missing:
  "layerId el = activeLayerId st \<Longrightarrow> el_type el = Text \<Longrightarrow>
   el_x el \<noteq> None \<Longrightarrow> el_y el = None \<Longrightarrow>
     \<not> eraserKeep st pos el"
  by (auto simp add: eraserKeep_def split: option.splits)

text \<open>
  C6 (as amended).  With radius = size * 2 an eraser evaluation at \<open>pos\<close> keeps every
  element whose layer is not the active one.  On the active layer it removes a stroke iff
  some point of it is closer to \<open>pos\<close> than the radius; a rectangle or circle iff the
  distance from its centroid to \<open>pos\<close> is at most \<open>max(|width|, |height|) / 2 + radius\<close>;
  a line iff \<open>distanceToSegment\<close> from \<open>pos\<close> to its end points is at most
  \<open>max(5, size) + 5\<close>; a text iff its anchor is at most 20 from \<open>pos\<close>.  An element
  that passes the test of its kind but lacks a number the test computes with is removed
  wherever the eraser is: a rectangle or circle that has x but not y, width or height, a
  line that has x, width and height but not y, a text that has x but not y.  An element
  that does not pass the test of its kind is kept: a stroke without points, a
  rectangle, circle or text without x, a line without x, width or height.  The element
  list after the pointer-move is the list before it filtered by that test, so what is
  kept is kept unchanged and in order.
\<close>

theorem eraser_removal:
  "(layerId el \<noteq> activeLayerId st \<longrightarrow> eraserKeep st pos el) \<and>
   (layerId s = activeLayerId st \<and> el_type s = Stroke \<and> points s = Some ps \<longrightarrow>
      (\<not> eraserKeep st pos s \<longleftrightarrow> (\<exists>p \<in> set ps. distance p pos < currentSize st * 2))) \<and>
   (layerId r = activeLayerId st \<and> (el_type r = Rectangle \<or> el_type r = Circle) \<and>
    el_x r = Some rx \<and> el_y r = Some ry \<and> width r = Some rw \<and> height r = Some rh \<longrightarrow>
      (\<not> eraserKeep st pos r \<longleftrightarrow>
         distance \<lparr>pt_x = rx + rw / 2, pt_y = ry + rh / 2, pressure = None\<rparr> pos
           \<le> max \<bar>rw\<bar> \<bar>rh\<bar> / 2 + currentSize st * 2)) \<and>
   (layerId l = activeLayerId st \<and> el_type l = Line \<and>
    el_x l = Some lx \<and> el_y l = Some ly \<and> width l = Some lw \<and> height l = Some lh \<longrightarrow>
      (\<not> eraserKeep st pos l \<longleftrightarrow>
         distanceToSegment pos \<lparr>pt_x = lx, pt_y = ly, pressure = None\<rparr>
                               \<lparr>pt_x = lx + lw, pt_y = ly + lh, pressure = None\<rparr>
           \<le> max 5 (currentSize st) + 5)) \<and>
   (layerId t = activeLayerId st \<and> el_type t = Text \<and> el_x t = Some tx \<and> el_y t = Some ty \<longrightarrow>
      (\<not> eraserKeep st pos t \<longleftrightarrow>
         distance \<lparr>pt_x = tx, pt_y = ty, pressure = None\<rparr> pos \<le> 20)) \<and>
   (layerId m = activeLayerId st \<and> (el_type m = Rectangle \<or> el_type m = Circle) \<and>
    el_x m \<noteq> None \<and> (el_y m = None \<or> width m = None \<or> height m = None) \<longrightarrow>
      \<not> eraserKeep st pos m) \<and>
   (layerId n = activeLayerId st \<and> el_type n = Line \<and>
    el_x n \<noteq> None \<and> width n \<noteq> None \<and> height n \<noteq> None \<and> el_y n = None \<longrightarrow>
      \<not> eraserKeep st pos n) \<and>
   (layerId o' = activeLayerId st \<and> el_type o' = Text \<and> el_x o' \<noteq> None \<and> el_y o' = None \<longrightarrow>
      \<not> eraserKeep st pos o') \<and>
   ((el_type u = Stroke \<and> points u = None) \<or>
    (el_type u \<noteq> Stroke \<and> el_x u = None) \<or>
    (el_type u = Line \<and> (width u = None \<or> height u = None)) \<longrightarrow>
      eraserKeep st pos u) \<and>
   (isDrawing a \<and> selectedTool (state a) = ToolEraser \<longrightarrow>
      elements (state (handlePointerMove canvas e a)) =
        filter (eraserKeep (state a) (getPointerPos canvas (state a) e)) (elements (state a)))"
proof (intro conjI)
  show "layerId el \<noteq> activeLayerId st \<longrightarrow> eraserKeep st pos el"
    using eraserKeep_other_layer [of el st pos] by blast
  show "layerId s = activeLayerId st \<and> el_type s = Stroke \<and> points s = Some ps \<longrightarrow>
      (\<not> eraserKeep st pos s \<longleftrightarrow> (\<exists>p \<in> set ps. distance p pos < currentSize st * 2))"
    using eraserKeep_stroke [of s st ps pos] by blast
  show "layerId r = activeLayerId st \<and> (el_type r = Rectangle \<or> el_type r = Circle) \<and>
    el_x r = Some rx \<and> el_y r = Some ry \<and> width r = Some rw \<and> height r = Some rh \<longrightarrow>
      (\<not> eraserKeep st pos r \<longleftrightarrow>
         distance \<lparr>pt_x = rx + rw / 2, pt_y = ry + rh / 2, pressure = None\<rparr> pos
           \<le> max \<bar>rw\<bar> \<bar>rh\<bar> / 2 + currentSize st * 2)"
    using eraserKeep_shape [of r st rx ry rw rh pos] by blast
  show "layerId l = activeLayerId st \<and> el_type l = Line \<and>
    el_x l = Some lx \<and> el_y l = Some ly \<and> width l = Some lw \<and> height l = Some lh \<longrightarrow>
      (\<not> eraserKeep st pos l \<longleftrightarrow>
         distanceToSegment pos \<lparr>pt_x = lx, pt_y = ly, pressure = None\<rparr>
                               \<lparr>pt_x = lx + lw, pt_y = ly + lh, pressure = None\<rparr>
           \<le> max 5 (currentSize st) + 5)"
    using eraserKeep_line [of l st lx ly lw lh pos] by blast
  show "layerId t = activeLayerId st \<and> el_type t = Text \<and> el_x t = Some tx \<and> el_y t = Some ty \<longrightarrow>
      (\<not> eraserKeep st pos t \<longleftrightarrow>
         distance \<lparr>pt_x = tx, pt_y = ty, pressure = None\<rparr> pos \<le> 20)"
    using eraserKeep_text [of t st tx ty pos] by blast
  show "layerId m = activeLayerId st \<and> (el_type m = Rectangle \<or> el_type m = Circle) \<and>
    el_x m \<noteq> None \<and> (el_y m = None \<or> width m = None \<or> height m = None) \<longrightarrow>
      \<not> eraserKeep st pos m"
    using eraserKeep_shape_missing [of m st pos] by blast
  show "layerId n = activeLayerId st \<and> el_type n = Line \<and>
    el_x n \<noteq> None \<and> width n \<noteq> None \<and> height n \<noteq> None \<and> el_y n = None \<longrightarrow>
      \<not> eraserKeep st pos n"
    using eraserKeep_line_missing [of n st pos] by blast
  show "layerId o' = activeLayerId st \<and> el_type o' = Text \<and> el_x o' \<noteq> None \<and> el_y o' = None \<longrightarrow>
      \<not> eraserKeep st pos o'"
    using eraserKeep_text_missing [of o' st pos] by blast
  show "(el_type u = Stroke \<and> points u = None) \<or>
    (el_type u \<noteq> Stroke \<and> el_x u = None) \<or>
    (el_type u = Line \<and> (width u = None \<or> height u = None)) \<longrightarrow>
      eraserKeep st pos u"
    using eraserKeep_unpopulated [of u st pos] by blast
  show "isDrawing a \<and> selectedTool (state a) = ToolEraser \<longrightarrow>
      elements (state (handlePointerMove canvas e a)) =
        filter (eraserKeep (state a) (getPointerPos canvas (state a) e)) (elements (state a))"
    using handlePointerMove_eraser [of a canvas e] by blast
qed

theorem eraser_removal_witness:
  "layerId (sample_shape Rectangle ''other'') \<noteq> activeLayerId (erasing [])
   \<and> eraserKeep (erasing []) \<lparr>pt_x = 0, pt_y = 0, pressure = None\<rparr> (sample_shape Rectangle ''other'')
   \<and> \<not> eraserKeep (erasing []) \<lparr>pt_x = 0, pt_y = 0, pressure = None\<rparr>
         (sample_stroke ''layer-1'' (Some [\<lparr>pt_x = 30, pt_y = 40, pressure = None\<rparr>,
                                            \<lparr>pt_x = 3, pt_y = 4, pressure = None\<rparr>]))
   \<and> \<not> eraserKeep (erasing []) \<lparr>pt_x = 0, pt_y = 0, pressure = None\<rparr> (sample_shape Circle ''layer-1'')
   \<and> \<not> eraserKeep (erasing []) \<lparr>pt_x = 0, pt_y = 0, pressure = None\<rparr> (sample_shape Line ''layer-1'')
   \<and> \<not> eraserKeep (erasing []) \<lparr>pt_x = 0, pt_y = 0, pressure = None\<rparr> (sample_shape Text ''layer-1'')
   \<and> \<not> eraserKeep (erasing []) \<lparr>pt_x = 0, pt_y = 0, pressure = None\<rparr>
         ((sample_shape Rectangle ''layer-1'')\<lparr>width := None\<rparr>)
   \<and> \<not> eraserKeep (erasing []) \<lparr>pt_x = 0, pt_y = 0, pressure = None\<rparr>
         ((sample_shape Line ''layer-1'')\<lparr>el_y := None\<rparr>)
   \<and> \<not> eraserKeep (erasing []) \<lparr>pt_x = 0, pt_y = 0, pressure = None\<rparr>
         ((sample_shape Text ''layer-1'')\<lparr>el_y := None\<rparr>)
   \<and> eraserKeep (erasing []) \<lparr>pt_x = 0, pt_y = 0, pressure = None\<rparr> (sample_stroke ''layer-1'' None)
   \<and> elements (state (handlePointerMove origin_rect (pointer_at 0 0)
        (gesture (erasing [sample_shape Rectangle ''other'', sample_shape Circle ''layer-1'']) True [])))
      = [sample_shape Rectangle ''other'']"
  using eraser_removal
     [where el = "sample_shape Rectangle ''other''" and st = "erasing []"
        and pos = "\<lparr>pt_x = 0, pt_y = 0, pressure = None\<rparr>"
        and s = "sample_stroke ''layer-1'' (Some [\<lparr>pt_x = 30, pt_y = 40, pressure = None\<rparr>,
                                            \<lparr>pt_x = 3, pt_y = 4, pressure = None\<rparr>])"
        and ps = "[\<lparr>pt_x = 30, pt_y = 40, pressure = None\<rparr>, \<lparr>pt_x = 3, pt_y = 4, pressure = None\<rparr>]"
        and r = "sample_shape Circle ''layer-1''" and rx = 0 and ry = 0 and rw = 10 and rh = 10
        and l = "sample_shape Line ''layer-1''" and lx = 0 and ly = 0 and lw = 10 and lh = 10
        and t = "sample_shape Text ''layer-1''" and tx = 0 and ty = 0
        and m = "(sample_shape Rectangle ''layer-1'')\<lparr>width := None\<rparr>"
        and n = "(sample_shape Line ''layer-1'')\<lparr>el_y := None\<rparr>"
        and o' = "(sample_shape Text ''layer-1'')\<lparr>el_y := None\<rparr>"
        and u = "sample_stroke ''layer-1'' None"
        and a = "gesture (erasing [sample_shape Rectangle ''other'', sample_shape Circle ''layer-1'']) True []"
        and canvas = origin_rect and e = "pointer_at 0 0"]
  by (simp add: sample_shape_def sample_stroke_def erasing_def initialState_def gesture_def
        origin_rect_def pointer_at_def getPointerPos_def screenToWorld_def
        distance_def hypot_less_iff hypot_le_iff distanceToSegment_def Let_def eraserKeep_def)

text \<open>
  A rectangle whose centroid is exactly \<open>max(|width|, |height|) / 2 + radius = 13\<close> away
  from the eraser is removed, and so is a text whose anchor is exactly 20 away: neither
  distance is less than its bound.
\<close>

theorem eraser_boundary_counterexample:
  "\<not> eraserKeep initialState \<lparr>pt_x = 18, pt_y = 5, pressure = None\<rparr>
        (sample_shape Rectangle ''layer-1'') \<and>
   \<not> distance \<lparr>pt_x = 0 + 10 / 2, pt_y = 0 + 10 / 2, pressure = None\<rparr>
        \<lparr>pt_x = 18, pt_y = 5, pressure = None\<rparr>
      < max \<bar>10\<bar> \<bar>10\<bar> / 2 + currentSize initialState * 2 \<and>
   \<not> eraserKeep initialState \<lparr>pt_x = 20, pt_y = 0, pressure = None\<rparr>
        (sample_shape Text ''layer-1'') \<and>
   \<not> distance \<lparr>pt_x = 0, pt_y = 0, pressure = None\<rparr> \<lparr>pt_x = 20, pt_y = 0, pressure = None\<rparr> < 20"
  by (simp add: sample_shape_def initialState_def eraserKeep_def distance_def hypot_axis Let_def)

section \<open>Loading\<close>

lemma reader_onload_success:
  assumes "result \<noteq> []" "parse result = Some (JsonValue (Some es) ls)" "ls \<noteq> NullFirst"
  shows "reader_onload parse result st =
           (st\<lparr>elements := es,
               layers := (case ls of LayerObjects (l # rest) \<Rightarrow> l # rest | _ \<Rightarrow> [default_layer]),
               activeLayerId :=
                 layer_id (case ls of LayerObjects (l # rest) \<Rightarrow> l | _ \<Rightarrow> default_layer),
               zoom := 1, pan := (0, 0), history := [es], historyStep := 0\<rparr>, None)"
  using assms
  by (simp add: reader_onload_def default_layer_def Let_def split: JsonLayers.splits list.splits)

lemma reader_onload_failure:
  assumes "result \<noteq> []"
    "parse result = None \<or> parse result = Some JsonNull \<or> parse result = Some (JsonValue None ls)
     \<or> parse result = Some (JsonValue es NullFirst)"
  shows "fst (reader_onload parse result st) = st" "snd (reader_onload parse result st) \<noteq> None"
  using assms by (auto simp add: reader_onload_def split: option.splits)

lemma reader_onload_empty: "reader_onload parse [] st = (st, None)"
  by (simp add: reader_onload_def)

text \<open>
  C8 (as amended).  Once a file is chosen and, over a canvas with elements, the
  replacement confirmed: a non-empty text that parses to a value whose \<open>elements\<close> is an
  array of elements and whose \<open>layers\<close>, where it is an array, holds layer objects loads;
  the layers are the document's, or one default layer when \<open>layers\<close> is missing, not an
  array or empty; the active layer is the first of them; zoom is 1, pan \<open>(0, 0)\<close>, the
  history the single snapshot of the loaded elements with cursor 0; no alert is shown.
  A non-empty text that does not parse, that is \<open>null\<close>, that has no array \<open>elements\<close>,
  or whose \<open>layers\<close> array begins with \<open>null\<close> shows an alert and leaves the whole state
  as it was.  An empty text leaves the state as it was and shows nothing, as does a
  refused confirmation.
\<close>

theorem load_document:
  "(result \<noteq> [] \<and> parse result = Some (JsonValue (Some es) ls) \<and> ls \<noteq> NullFirst \<and>
    (elements st = [] \<or> confirmed) \<longrightarrow>
      handleFileChange parse (Some result) confirmed st =
        (st\<lparr>elements := es,
            layers := (case ls of LayerObjects (l # rest) \<Rightarrow> l # rest | _ \<Rightarrow> [default_layer]),
            activeLayerId :=
              layer_id (case ls of LayerObjects (l # rest) \<Rightarrow> l | _ \<Rightarrow> default_layer),
            zoom := 1, pan := (0, 0), history := [es], historyStep := 0\<rparr>, None)) \<and>
   (result \<noteq> [] \<and>
    (parse result = None \<or> parse result = Some JsonNull \<or> parse result = Some (JsonValue None ls')
     \<or> parse result = Some (JsonValue es' NullFirst)) \<longrightarrow>
      fst (handleFileChange parse (Some result) confirmed st) = st \<and>
      (elements st = [] \<or> confirmed \<longrightarrow>
         snd (handleFileChange parse (Some result) confirmed st) \<noteq> None)) \<and>
   handleFileChange parse (Some []) confirmed st = (st, None) \<and>
   handleFileChange parse None confirmed st = (st, None) \<and>
   (elements st \<noteq> [] \<and> \<not> confirmed \<longrightarrow>
      handleFileChange parse (Some result) confirmed st = (st, None))"
  using reader_onload_success [of result parse es ls st]
    reader_onload_failure [of result parse ls' es' st] reader_onload_empty [of parse st]
  by (auto simp add: handleFileChange_def)

theorem load_document_witness:
  "handleFileChange (parse_as (JsonValue (Some []) (LayerObjects []))) (Some ''doc'') False initialState
     = (initialState\<lparr>layers := [default_layer], activeLayerId := ''layer-1'',
                      zoom := 1, pan := (0, 0), history := [[]], historyStep := 0\<rparr>, None) \<and>
   handleFileChange
       (parse_as (JsonValue (Some [sample_shape Line ''b'']) (LayerObjects [sample_layer True True])))
       (Some ''doc'') True (erasing [sample_shape Circle ''layer-1''])
     = ((erasing [sample_shape Circle ''layer-1''])
          \<lparr>elements := [sample_shape Line ''b''], layers := [sample_layer True True],
           activeLayerId := ''a'', zoom := 1, pan := (0, 0),
           history := [[sample_shape Line ''b'']], historyStep := 0\<rparr>, None) \<and>
   handleFileChange (parse_as (JsonValue None NotAnArray)) (Some ''{}'') False initialState
     = (initialState, Some ''Invalid project file format.'') \<and>
   handleFileChange Map.empty (Some ''{'') False initialState
     = (initialState, Some ''Failed to load project file.'') \<and>
   handleFileChange (parse_as (JsonValue (Some []) NullFirst)) (Some ''doc'') False initialState
     = (initialState, Some ''Failed to load project file.'') \<and>
   handleFileChange (parse_as (JsonValue (Some []) NotAnArray)) (Some ''doc'') False
       (erasing [sample_shape Circle ''layer-1''])
     = (erasing [sample_shape Circle ''layer-1''], None)"
  using load_document [of "''doc''" "parse_as (JsonValue (Some []) (LayerObjects []))" "[]"
                          "LayerObjects []" initialState False NotAnArray None]
    load_document [of "''doc''"
                      "parse_as (JsonValue (Some [sample_shape Line ''b'']) (LayerObjects [sample_layer True True]))"
                      "[sample_shape Line ''b'']" "LayerObjects [sample_layer True True]"
                      "erasing [sample_shape Circle ''layer-1'']" True NotAnArray None]
    load_document [of "''{}''" "parse_as (JsonValue None NotAnArray)" "[]" NotAnArray
                      initialState False NotAnArray None]
    load_document [of "''{''" Map.empty "[]" NotAnArray initialState False NotAnArray None]
    load_document [of "''doc''" "parse_as (JsonValue (Some []) NullFirst)" "[]" NotAnArray
                      initialState False NotAnArray "Some []"]
    load_document [of "''doc''" "parse_as (JsonValue (Some []) NotAnArray)" "[]" NotAnArray
                      "erasing [sample_shape Circle ''layer-1'']" False NotAnArray None]
  by (simp add: parse_as_def initialState_def default_layer_def sample_layer_def erasing_def
        handleFileChange_def reader_onload_def Let_def)

text \<open>
  The empty text is not JSON (\<open>JSON.parse('')\<close> throws), and loading it shows no alert.
\<close>

theorem load_empty_file_counterexample:
  "parse_as (JsonValue (Some []) (LayerObjects [])) [] = None \<and>
   handleFileChange (parse_as (JsonValue (Some []) (LayerObjects []))) (Some []) False initialState
     = (initialState, None)"
  by (simp add: parse_as_def handleFileChange_def reader_onload_def initialState_def)

section \<open>Layers\<close>

lemma onDelete_keeps_active:
  assumes d: "distinct (map layer_id (layers st))"
    and act: "activeLayerId st \<in> set (map layer_id (layers st))"
    and i: "i \<in> set (map layer_id (layers st))"
    and two: "1 < length (layers st)"
  shows "layers (onDelete i st) \<noteq> []"
    and "activeLayerId (onDelete i st) \<in> set (map layer_id (layers (onDelete i st)))"
    and "distinct (map layer_id (layers (onDelete i st)))"
proof -
  define rest where "rest = filter (\<lambda>l. layer_id l \<noteq> i) (layers st)"
  have lay: "layers (onDelete i st) = rest"
    by (simp add: onDelete_def rest_def Let_def)
  obtain a b more where abm: "layers st = a # b # more"
    using two by (cases "layers st"; cases "tl (layers st)") auto
  then have "layer_id a \<noteq> layer_id b"
    using d by auto
  then have "\<exists>l \<in> set (layers st). layer_id l \<noteq> i"
    using abm by auto
  then have ne: "rest \<noteq> []"
    by (auto simp add: rest_def filter_empty_conv)
  then show "layers (onDelete i st) \<noteq> []"
    by (simp add: lay)
  show "distinct (map layer_id (layers (onDelete i st)))"
    using d by (simp add: lay rest_def distinct_map_filter)
  show "activeLayerId (onDelete i st) \<in> set (map layer_id (layers (onDelete i st)))"
  proof (cases "activeLayerId st = i")
    case True
    then have "activeLayerId (onDelete i st) = layer_id (last rest)"
      using ne by (simp add: onDelete_def rest_def Let_def)
    then show ?thesis
      using ne by (simp add: lay)
  next
    case False
    then have "activeLayerId (onDelete i st) = activeLayerId st"
      by (simp add: onDelete_def Let_def)
    then show ?thesis
      using act False by (auto simp add: lay rest_def)
  qed
qed

lemma toggles_keep_ids:
  "map layer_id (layers (onToggleVisible i st)) = map layer_id (layers st)"
  "map layer_id (layers (onToggleLock i st)) = map layer_id (layers st)"
  "activeLayerId (onToggleVisible i st) = activeLayerId st"
  "activeLayerId (onToggleLock i st) = activeLayerId st"
  by (simp_all add: onToggleVisible_def onToggleLock_def comp_def)

lemma LayerManager_invariant:
  assumes d: "distinct (map layer_id (layers st))"
    and act: "activeLayerId st \<in> set (map layer_id (layers st))"
    and step: "LayerManager isOpen cmd st = Some st'"
    and fresh: "\<forall>n. cmd = Add n \<longrightarrow> n \<notin> set (map layer_id (layers st))"
  shows "layers st' \<noteq> [] \<and> activeLayerId st' \<in> set (map layer_id (layers st')) \<and>
         distinct (map layer_id (layers st'))"
proof (cases cmd)
  case (SetActive i)
  then show ?thesis
    using d act step by (auto simp add: LayerManager_def onSetActive_def split: if_splits)
next
  case (Add n)
  then show ?thesis
    using d fresh step by (auto simp add: LayerManager_def addLayer_def Let_def split: if_splits)
next
  case (Delete i)
  then have "i \<in> set (map layer_id (layers st))" "1 < length (layers st)" "st' = onDelete i st"
    using step by (auto simp add: LayerManager_def split: if_splits)
  then show ?thesis
    using onDelete_keeps_active [OF d act] by blast
next
  case (ToggleVisible i)
  then have "st' = onToggleVisible i st"
    using step by (auto simp add: LayerManager_def split: if_splits)
  then show ?thesis
    using d act toggles_keep_ids(1,3) [of i st]
    by (metis list.map_disc_iff empty_iff list.set(1))
next
  case (ToggleLock i)
  then have "st' = onToggleLock i st"
    using step by (auto simp add: LayerManager_def split: if_splits)
  then show ?thesis
    using d act toggles_keep_ids(2,4) [of i st]
    by (metis list.map_disc_iff empty_iff list.set(1))
qed

lemma LayerManager_delete:
  assumes "LayerManager isOpen (Delete i) st = Some st'"
  shows "1 < length (layers st)"
    and "layers st' = filter (\<lambda>l. layer_id l \<noteq> i) (layers st)"
    and "activeLayerId st \<noteq> i \<Longrightarrow> activeLayerId st' = activeLayerId st"
    and "activeLayerId st = i \<Longrightarrow> layers st' \<noteq> [] \<Longrightarrow> activeLayerId st' = layer_id (last (layers st'))"
    and "activeLayerId st = i \<Longrightarrow> layers st' = [] \<Longrightarrow> activeLayerId st' = []"
  using assms by (auto simp add: LayerManager_def onDelete_def Let_def split: if_splits)

lemma LayerManager_last_layer: "length (layers st) \<le> 1 \<Longrightarrow> LayerManager isOpen (Delete i) st = None"
  by (simp add: LayerManager_def)

text \<open>
  C9 (as amended).  While the layer ids are pairwise distinct and the active layer id
  names a layer, every command the layer panel offers (a new layer getting a fresh id)
  leaves at least one layer, keeps the ids distinct and leaves the active layer id naming
  a layer.  The panel offers a delete only while there is more than one layer; a delete
  removes the layers of that id and, when the active layer was deleted, makes the last
  (topmost) remaining layer the active one, otherwise keeps the active layer.  The
  handler itself, were no layer to remain, would set the active id to the empty string.
\<close>

theorem layer_operations_keep_active:
  "distinct (map layer_id (layers st)) \<Longrightarrow>
   activeLayerId st \<in> set (map layer_id (layers st)) \<Longrightarrow>
   LayerManager isOpen cmd st = Some st' \<Longrightarrow>
   \<forall>n. cmd = Add n \<longrightarrow> n \<notin> set (map layer_id (layers st)) \<Longrightarrow>
     layers st' \<noteq> [] \<and>
     activeLayerId st' \<in> set (map layer_id (layers st')) \<and>
     distinct (map layer_id (layers st')) \<and>
     (\<forall>i. cmd = Delete i \<longrightarrow>
        1 < length (layers st) \<and>
        layers st' = filter (\<lambda>l. layer_id l \<noteq> i) (layers st) \<and>
        (activeLayerId st = i \<longrightarrow> activeLayerId st' = layer_id (last (layers st'))) \<and>
        (activeLayerId st \<noteq> i \<longrightarrow> activeLayerId st' = activeLayerId st)) \<and>
     (length (layers st) \<le> 1 \<longrightarrow> LayerManager isOpen (Delete j) st = None) \<and>
     (activeLayerId st = j \<and> filter (\<lambda>l. layer_id l \<noteq> j) (layers st) = [] \<longrightarrow>
        activeLayerId (onDelete j st) = [])"
proof -
  assume d: "distinct (map layer_id (layers st))"
    and act: "activeLayerId st \<in> set (map layer_id (layers st))"
    and step: "LayerManager isOpen cmd st = Some st'"
    and fresh: "\<forall>n. cmd = Add n \<longrightarrow> n \<notin> set (map layer_id (layers st))"
  note inv = LayerManager_invariant [OF d act step fresh]
  have del: "1 < length (layers st) \<and>
        layers st' = filter (\<lambda>l. layer_id l \<noteq> i) (layers st) \<and>
        (activeLayerId st = i \<longrightarrow> activeLayerId st' = layer_id (last (layers st'))) \<and>
        (activeLayerId st \<noteq> i \<longrightarrow> activeLayerId st' = activeLayerId st)"
    if "cmd = Delete i" for i
    using LayerManager_delete [of isOpen i st st'] step that inv by blast
  have mark: "activeLayerId st = j \<and> filter (\<lambda>l. layer_id l \<noteq> j) (layers st) = [] \<longrightarrow>
        activeLayerId (onDelete j st) = []"
    by (simp add: onDelete_def Let_def)
  show ?thesis
    using inv del mark LayerManager_last_layer [of st isOpen j] by blast
qed


theorem layer_operations_keep_active_witness:
  "distinct (map layer_id (layers two_layers)) \<and>
   activeLayerId two_layers \<in> set (map layer_id (layers two_layers)) \<and>
   LayerManager True (Delete ''a'') two_layers
     = Some (two_layers\<lparr>layers := [default_layer], activeLayerId := ''layer-1''\<rparr>) \<and>
   LayerManager True (Add ''n'') initialState = Some (addLayer ''n'' initialState) \<and>
   ''n'' \<notin> set (map layer_id (layers initialState)) \<and>
   activeLayerId (addLayer ''n'' initialState)
     \<in> set (map layer_id (layers (addLayer ''n'' initialState))) \<and>
   LayerManager True (Delete ''layer-1'') initialState = None \<and>
   activeLayerId (onDelete ''layer-1'' initialState) = []"
  using layer_operations_keep_active
          [of two_layers True "Delete ''a''"
              "two_layers\<lparr>layers := [default_layer], activeLayerId := ''layer-1''\<rparr>" "''a''"]
        layer_operations_keep_active
          [of initialState True "Add ''n''" "addLayer ''n'' initialState" "''layer-1''"]
  by (simp add: two_layers_def initialState_def default_layer_def sample_layer_def
        LayerManager_def onDelete_def addLayer_def Let_def)

text \<open>
  A loaded document may carry two layers of one id.  The panel then offers the delete,
  which removes both: no layer remains and the active layer id is the empty string.
\<close>

theorem duplicate_layer_ids_counterexample:
  "map layer_id (layers (fst (handleFileChange (parse_as duplicate_ids) (Some ''doc'') False initialState)))
     = [''a'', ''a''] \<and>
   activeLayerId (fst (handleFileChange (parse_as duplicate_ids) (Some ''doc'') False initialState))
     = ''a'' \<and>
   map_option layers
     (LayerManager True (Delete ''a'')
        (fst (handleFileChange (parse_as duplicate_ids) (Some ''doc'') False initialState)))
     = Some [] \<and>
   map_option activeLayerId
     (LayerManager True (Delete ''a'')
        (fst (handleFileChange (parse_as duplicate_ids) (Some ''doc'') False initialState)))
     = Some []"
  by (simp add: handleFileChange_def reader_onload_def parse_as_def duplicate_ids_def
        sample_layer_def initialState_def LayerManager_def onDelete_def Let_def)

end
